theory Spec2Isabelle
  imports Complex_Main
begin

section \<open>Values, exceptions and observable effects\<close>

text \<open>
  The Python sources talk to a camera, to two HTTP services, to the file system and to the
  clock. Each function is modelled as a pure function that receives what the outside world
  answers (replies, clock readings, random draws) and returns its result together with the
  list of effects it performed, oldest first. Seconds are reals (Python floats, idealised).
  Calls to \<open>logging\<close> do not influence control flow and are recorded only where a loop
  reports its decision.
\<close>

datatype exn =
    RequestException
  | OSError
  | JSONDecodeError
  | KeyError
  | TypeError
  | ValueError
  | AttributeError
  | RecursionError
  | OverflowError

datatype json =
    JNull
  | JBool bool
  | JNum real
  | JStr string
  | JArr "json list"
  | JObj "(string \<times> json) list"

datatype body =
    Form "(string \<times> string) list"
  | JsonBody json

datatype event =
    HttpPost string "(string \<times> string) list" body
  | HttpGet string
  | Sleep real
  | CameraRead int
  | WriteFile string
  | Remove string
  | Upload string
  | ReadFile string
  | MakeDirs string
  | Log string

record response =
  status_code :: int
  body_text :: string

text \<open>Truthiness of a Python \<open>str\<close> or \<open>None\<close>: \<open>None\<close> and the empty string are false.\<close>

fun truthy_str :: "string option \<Rightarrow> bool" where
  "truthy_str None = False"
| "truthy_str (Some s) = (s \<noteq> [])"

section \<open>analysis/veolia\_analysis.py: VeoliaTokenManager\<close>

record VeoliaTokenManager =
  client_id :: string
  client_secret :: string
  token :: "string option"
  expiry :: real

definition VeoliaTokenManager_init :: "string \<Rightarrow> string \<Rightarrow> VeoliaTokenManager" where
  "VeoliaTokenManager_init cid secret =
     \<lparr>client_id = cid, client_secret = secret, token = None, expiry = 0\<rparr>"

text \<open>
  The body of a token response as \<open>get_token\<close> reads it: \<open>access_token\<close> is \<open>None\<close> when
  the key is missing (\<open>KeyError\<close>); \<open>expires_in\<close> is the outcome of
  \<open>int(token_data.get("expires_in", 3600))\<close>.
\<close>

datatype expires_field = Absent | NotAnInt | IntValue int

record token_data =
  td_access_token :: "string option"
  td_expires_in :: expires_field

text \<open>
  A reply of the token endpoint: the status code and the outcome of \<open>response.json()\<close>
  (\<open>None\<close> when it raises).
\<close>

record token_response =
  token_status :: int
  token_json :: "token_data option"

definition token_url :: string where
  "token_url = ''https://api.veolia.com/security/v2/oauth/token''"

definition token_request :: "VeoliaTokenManager \<Rightarrow> event" where
  "token_request tm =
     HttpPost token_url
       [(''Content-Type'', ''application/x-www-form-urlencoded'')]
       (Form [(''grant_type'', ''client_credentials''),
              (''client_id'', client_id tm),
              (''client_secret'', client_secret tm)])"

text \<open>
  \<open>get_token current_time reply tm\<close>: \<open>current_time\<close> is the reading of \<open>time.time()\<close>,
  \<open>reply\<close> is what \<open>requests.post\<close> gives if it is called (\<open>Inl\<close>: it raises). The result is
  the returned token (\<open>None\<close> for Python's \<open>None\<close>), the manager afterwards and the requests
  sent. \<open>self.token\<close> is assigned before \<open>int(...)\<close> is evaluated, so a lifetime that is not
  an integer leaves the new token with the old expiry.
\<close>

definition get_token ::
  "real \<Rightarrow> exn + token_response \<Rightarrow> VeoliaTokenManager
     \<Rightarrow> string option \<times> VeoliaTokenManager \<times> event list" where
  "get_token current_time reply tm =
     (if truthy_str (token tm) \<and> current_time < expiry tm - 60 then (token tm, tm, [])
      else
        (case reply of
           Inl e \<Rightarrow> (None, tm, [token_request tm])
         | Inr resp \<Rightarrow>
             if token_status resp = 200 then
               (case token_json resp of
                  None \<Rightarrow> (None, tm, [token_request tm])
                | Some td \<Rightarrow>
                    (case td_access_token td of
                       None \<Rightarrow> (None, tm, [token_request tm])
                     | Some tok \<Rightarrow>
                         (case td_expires_in td of
                            NotAnInt \<Rightarrow> (None, tm\<lparr>token := Some tok\<rparr>, [token_request tm])
                          | Absent \<Rightarrow>
                              (Some tok,
                               tm\<lparr>token := Some tok, expiry := current_time + 3600\<rparr>,
                               [token_request tm])
                          | IntValue n \<Rightarrow>
                              (Some tok,
                               tm\<lparr>token := Some tok, expiry := current_time + real_of_int n\<rparr>,
                               [token_request tm]))))
             else (None, tm, [token_request tm])))"

section \<open>analysis/veolia\_analysis.py: analyze\_image\_veolia\<close>

text \<open>
  \<open>str.strip()\<close> removes leading and trailing white space. A string here is the list of
  the code points of a Python \<open>str\<close>, each below 256; the white space among those is the
  blank, the controls 9 to 13 and 28 to 31, U+0085 and U+00A0.
\<close>

definition is_space :: "char \<Rightarrow> bool" where
  "is_space c =
     (c \<in> set [CHR '' '', CHR 0x09, CHR 0x0A, CHR 0x0B, CHR 0x0C, CHR 0x0D,
                CHR 0x1C, CHR 0x1D, CHR 0x1E, CHR 0x1F, CHR 0x85, CHR 0xA0])"

definition py_strip :: "string \<Rightarrow> string" where
  "py_strip s = rev (dropWhile is_space (rev (dropWhile is_space s)))"

text \<open>
  Truthiness of a value produced by \<open>json.loads\<close>; \<open>JNull\<close> is Python's \<open>None\<close>, which is
  also what \<open>analyze_image_veolia\<close> returns on every error.
\<close>

fun truthy :: "json \<Rightarrow> bool" where
  "truthy JNull = False"
| "truthy (JBool b) = b"
| "truthy (JNum r) = (r \<noteq> 0)"
| "truthy (JStr s) = (s \<noteq> [])"
| "truthy (JArr xs) = (xs \<noteq> [])"
| "truthy (JObj kvs) = (kvs \<noteq> [])"

definition analysis_payload :: "string \<Rightarrow> string \<Rightarrow> string \<Rightarrow> json" where
  "analysis_payload user_email prompt image_b64 =
     JObj [(''useremail'', JStr user_email),
           (''history'',
              JArr [JObj [(''role'', JStr ''user''),
                          (''content'',
                             JArr [JObj [(''type'', JStr ''text''), (''text'', JStr prompt)],
                                   JObj [(''type'', JStr ''image_url''),
                                         (''image_url'',
                                            JObj [(''url'',
                                              JStr (''data:image/jpeg;base64,'' @ image_b64))])]])]]),
           (''model'', JStr ''gemini-pro-vision-1.5''),
           (''temperature'', JNum (1 / 10))]"

definition analysis_headers :: "string \<Rightarrow> (string \<times> string) list" where
  "analysis_headers access_token =
     [(''Authorization'', ''Bearer '' @ access_token), (''Content-Type'', ''application/json'')]"

text \<open>
  The loop \<open>for attempt in range(retries)\<close>, at index \<open>attempt\<close> with \<open>n\<close> indices left.
  \<open>loads\<close> is \<open>json.loads\<close> (\<open>Inl\<close>: the exception it raises), \<open>api_reply k\<close> is what
  \<open>requests.post\<close> gives in attempt \<open>k\<close> (\<open>Inl\<close>: it raises), \<open>jitter k\<close> is the value drawn by
  \<open>random.uniform(0, 1)\<close> after attempt \<open>k\<close>. Headers and payload are those bound before the
  loop. The inner handler catches \<open>json.JSONDecodeError\<close> only; any other exception of
  \<open>json.loads\<close> reaches the outer handler, as an exception of \<open>requests.post\<close> does.
  Seconds are real numbers and the pause itself always succeeds: \<open>time.sleep\<close> refuses a
  length of \<open>2^63\<close> nanoseconds or more, which no attempt before index 34 asks for.
\<close>

fun analysis_attempts ::
  "(string \<Rightarrow> exn + json) \<Rightarrow> (nat \<Rightarrow> exn + response) \<Rightarrow> (nat \<Rightarrow> real)
     \<Rightarrow> string \<Rightarrow> (string \<times> string) list \<Rightarrow> json \<Rightarrow> nat \<Rightarrow> nat \<Rightarrow> json \<times> event list" where
  "analysis_attempts loads api_reply jitter api_base_url headers payload attempt 0 = (JNull, [])"
| "analysis_attempts loads api_reply jitter api_base_url headers payload attempt (Suc n) =
     (case api_reply attempt of
        Inl e \<Rightarrow>
          (case analysis_attempts loads api_reply jitter api_base_url headers payload
                  (Suc attempt) n of
             (result, tr) \<Rightarrow>
               (result,
                HttpPost api_base_url headers (JsonBody payload)
                  # Sleep (2 ^ attempt + jitter attempt) # tr))
      | Inr resp \<Rightarrow>
          if status_code resp = 200 then
            (case loads (py_strip (body_text resp)) of
               Inr result \<Rightarrow> (result, [HttpPost api_base_url headers (JsonBody payload)])
             | Inl e \<Rightarrow>
                 if e = JSONDecodeError
                 then (JNull, [HttpPost api_base_url headers (JsonBody payload)])
                 else
                   (case analysis_attempts loads api_reply jitter api_base_url headers payload
                           (Suc attempt) n of
                      (result, tr) \<Rightarrow>
                        (result,
                         HttpPost api_base_url headers (JsonBody payload)
                           # Sleep (2 ^ attempt + jitter attempt) # tr)))
          else
            (case analysis_attempts loads api_reply jitter api_base_url headers payload
                    (Suc attempt) n of
               (result, tr) \<Rightarrow>
                 (result,
                  HttpPost api_base_url headers (JsonBody payload)
                    # Sleep (2 ^ attempt + jitter attempt) # tr)))"

text \<open>
  What the outside world does during one call of \<open>analyze_image_veolia\<close>: \<open>image_b64\<close> is
  the outcome of the first \<open>try\<close> block (reading the file and encoding it), \<open>token_time\<close>
  and \<open>token_reply\<close> are the clock reading and the reply seen by \<open>get_token\<close>.
\<close>

record analysis_env =
  image_b64 :: "exn + string"
  token_time :: real
  token_reply :: "exn + token_response"
  api_reply :: "nat \<Rightarrow> exn + response"
  jitter :: "nat \<Rightarrow> real"

definition analyze_image_veolia ::
  "(string \<Rightarrow> exn + json) \<Rightarrow> analysis_env \<Rightarrow> string \<Rightarrow> string \<Rightarrow> VeoliaTokenManager
     \<Rightarrow> string \<Rightarrow> string \<Rightarrow> int \<Rightarrow> json \<times> VeoliaTokenManager \<times> event list" where
  "analyze_image_veolia loads env image_path prompt token_manager user_email api_base_url retries =
     (case image_b64 env of
        Inl e \<Rightarrow> (JNull, token_manager, [ReadFile image_path])
      | Inr b64 \<Rightarrow>
          (case get_token (token_time env) (token_reply env) token_manager of
             (None, tm, ttr) \<Rightarrow> (JNull, tm, ReadFile image_path # ttr)
           | (Some access_token, tm, ttr) \<Rightarrow>
               if access_token = [] then (JNull, tm, ReadFile image_path # ttr)
               else
                 (case analysis_attempts loads (api_reply env) (jitter env) api_base_url
                         (analysis_headers access_token)
                         (analysis_payload user_email prompt b64) 0 (nat retries) of
                    (result, atr) \<Rightarrow> (result, tm, ReadFile image_path # ttr @ atr))))"

text \<open>
  An attempt that the loop retries: \<open>requests.post\<close> raised, the status is not 200, or
  \<open>json.loads\<close> raised something other than \<open>JSONDecodeError\<close>.
\<close>

definition failed :: "(string \<Rightarrow> exn + json) \<Rightarrow> exn + response \<Rightarrow> bool" where
  "failed loads r =
     (case r of
        Inl e \<Rightarrow> True
      | Inr resp \<Rightarrow>
          status_code resp \<noteq> 200
          \<or> (case loads (py_strip (body_text resp)) of
                Inl e \<Rightarrow> e \<noteq> JSONDecodeError
              | Inr v \<Rightarrow> False))"

text \<open>The effects of \<open>k\<close> failed attempts in a row, from index \<open>a\<close> on.\<close>

fun backoff_trace :: "event \<Rightarrow> (nat \<Rightarrow> real) \<Rightarrow> nat \<Rightarrow> nat \<Rightarrow> event list" where
  "backoff_trace req jit a 0 = []"
| "backoff_trace req jit a (Suc k) = req # Sleep (2 ^ a + jit a) # backoff_trace req jit (Suc a) k"

text \<open>The analysis requests in a list of effects: the POSTs with a JSON body.\<close>

definition is_api_post :: "event \<Rightarrow> bool" where
  "is_api_post e =
     (case e of
        HttpPost u h b \<Rightarrow> (case b of JsonBody p \<Rightarrow> True | Form f \<Rightarrow> False)
      | _ \<Rightarrow> False)"

definition api_posts :: "event list \<Rightarrow> nat" where
  "api_posts tr = length (filter is_api_post tr)"

section \<open>camera/local\_camera.py and camera/reolink\_camera.py\<close>

text \<open>
  \<open>os.path.join\<close> of two POSIX components.
\<close>

definition path_join :: "string \<Rightarrow> string \<Rightarrow> string" where
  "path_join a b =
     (if take 1 b = ''/'' then b
      else if a = [] \<or> last a = CHR ''/'' then a @ b
      else a @ ''/'' @ b)"

text \<open>
  What the outside world does during one capture call. \<open>frame k\<close> is the flag \<open>ret\<close> of
  \<open>cam.read()\<close> in attempt \<open>k\<close>; \<open>snapshot k\<close> is what \<open>requests.get\<close> gives in attempt
  \<open>k\<close>; \<open>save_error k\<close> is the exception raised while the body is streamed to the file in
  attempt \<open>k\<close>, if any; \<open>strftime k\<close> is what \<open>time.strftime("%Y%m%d-%H%M%S")\<close> returns when
  \<open>k\<close> attempts have failed before it is called; \<open>random_str\<close> is the value of
  \<open>random.choices\<close>.
\<close>

record capture_env =
  makedirs_error :: "exn option"
  frame :: "nat \<Rightarrow> bool"
  snapshot :: "nat \<Rightarrow> exn + response"
  save_error :: "nat \<Rightarrow> exn option"
  strftime :: "nat \<Rightarrow> string"
  random_str :: string

fun local_attempts ::
  "capture_env \<Rightarrow> string \<Rightarrow> string \<Rightarrow> int \<Rightarrow> nat \<Rightarrow> nat \<Rightarrow> string option \<times> event list" where
  "local_attempts env image_dir filename_prefix camera_index attempt 0 = (None, [])"
| "local_attempts env image_dir filename_prefix camera_index attempt (Suc n) =
     (if frame env attempt then
        (Some (path_join image_dir (filename_prefix @ ''_'' @ strftime env attempt @ ''.jpg'')),
         [CameraRead camera_index,
          WriteFile (path_join image_dir
                       (filename_prefix @ ''_'' @ strftime env attempt @ ''.jpg''))])
      else
        (case local_attempts env image_dir filename_prefix camera_index (Suc attempt) n of
           (r, tr) \<Rightarrow> (r, CameraRead camera_index # Sleep 1 # tr)))"

definition capture_image_local ::
  "capture_env \<Rightarrow> string \<Rightarrow> string \<Rightarrow> int \<Rightarrow> int \<Rightarrow> (exn + string option) \<times> event list" where
  "capture_image_local env image_dir filename_prefix camera_index retries =
     (case makedirs_error env of
        Some e \<Rightarrow> (Inl e, [MakeDirs image_dir])
      | None \<Rightarrow>
          (case local_attempts env image_dir filename_prefix camera_index 0 (nat retries) of
             (r, tr) \<Rightarrow> (Inr r, MakeDirs image_dir # tr)))"

text \<open>
  The entries of the configuration dictionary that \<open>capture_image_reolink\<close> reads; \<open>None\<close>
  is a missing key.
\<close>

record reolink_config =
  cam_ip :: "string option"
  cam_user :: "string option"
  cam_password :: "string option"
  cfg_image_dir :: "string option"

definition snapshot_url :: "string \<Rightarrow> string \<Rightarrow> string \<Rightarrow> string \<Rightarrow> string" where
  "snapshot_url ip rs user password =
     ''http://'' @ ip @ ''/cgi-bin/api.cgi?cmd=Snap&channel=0'' @
     ''&rs='' @ rs @ ''&user='' @ user @ ''&password='' @ password"

fun reolink_attempts ::
  "capture_env \<Rightarrow> string \<Rightarrow> string \<Rightarrow> nat \<Rightarrow> nat \<Rightarrow> string option \<times> event list" where
  "reolink_attempts env url filepath attempt 0 = (None, [])"
| "reolink_attempts env url filepath attempt (Suc n) =
     (case snapshot env attempt of
        Inl e \<Rightarrow>
          (case reolink_attempts env url filepath (Suc attempt) n of
             (r, tr) \<Rightarrow> (r, HttpGet url # Sleep 1 # tr))
      | Inr resp \<Rightarrow>
          if status_code resp = 200 then
            (case save_error env attempt of
               None \<Rightarrow> (Some filepath, [HttpGet url, WriteFile filepath])
             | Some e \<Rightarrow>
                 (case reolink_attempts env url filepath (Suc attempt) n of
                    (r, tr) \<Rightarrow> (r, HttpGet url # WriteFile filepath # Sleep 1 # tr)))
          else
            (case reolink_attempts env url filepath (Suc attempt) n of
               (r, tr) \<Rightarrow> (r, HttpGet url # Sleep 1 # tr)))"

definition reolink_image_dir :: "reolink_config \<Rightarrow> string" where
  "reolink_image_dir config =
     (case cfg_image_dir config of None \<Rightarrow> ''captured_images'' | Some d \<Rightarrow> d)"

definition reolink_filepath :: "capture_env \<Rightarrow> reolink_config \<Rightarrow> string \<Rightarrow> string" where
  "reolink_filepath env config filename_prefix =
     path_join (reolink_image_dir config) (filename_prefix @ ''_'' @ strftime env 0 @ ''.jpg'')"

definition capture_image_reolink ::
  "capture_env \<Rightarrow> reolink_config \<Rightarrow> string \<Rightarrow> int \<Rightarrow> (exn + string option) \<times> event list" where
  "capture_image_reolink env config filename_prefix retries =
     (if \<not> (truthy_str (cam_ip config) \<and> truthy_str (cam_user config)
             \<and> truthy_str (cam_password config))
      then (Inr None, [])
      else
        (case makedirs_error env of
           Some e \<Rightarrow> (Inl e, [MakeDirs (reolink_image_dir config)])
         | None \<Rightarrow>
             (case reolink_attempts env
                     (snapshot_url (case cam_ip config of Some ip \<Rightarrow> ip | None \<Rightarrow> [])
                        (random_str env)
                        (case cam_user config of Some u \<Rightarrow> u | None \<Rightarrow> [])
                        (case cam_password config of Some pw \<Rightarrow> pw | None \<Rightarrow> []))
                     (reolink_filepath env config filename_prefix) 0 (nat retries) of
                (r, tr) \<Rightarrow> (Inr r, MakeDirs (reolink_image_dir config) # tr))))"

text \<open>Both capture functions declare \<open>retries=3\<close>, and no caller passes another value.\<close>

definition default_retries :: int where
  "default_retries = 3"

text \<open>A network attempt that is retried: the request raised, the status is not 200, or
  writing the body to the file raised.\<close>

definition snapshot_failed :: "capture_env \<Rightarrow> nat \<Rightarrow> bool" where
  "snapshot_failed env k =
     (case snapshot env k of
        Inl e \<Rightarrow> True
      | Inr resp \<Rightarrow> status_code resp \<noteq> 200 \<or> save_error env k \<noteq> None)"

definition count_reads :: "event list \<Rightarrow> nat" where
  "count_reads tr = length (filter (\<lambda>e. case e of CameraRead i \<Rightarrow> True | _ \<Rightarrow> False) tr)"

definition count_gets :: "event list \<Rightarrow> nat" where
  "count_gets tr = length (filter (\<lambda>e. case e of HttpGet u \<Rightarrow> True | _ \<Rightarrow> False) tr)"

definition written_paths :: "event list \<Rightarrow> string list" where
  "written_paths tr = concat (map (\<lambda>e. case e of WriteFile p \<Rightarrow> [p] | _ \<Rightarrow> []) tr)"

section \<open>utils/helpers.py: cleanup\_images\<close>

text \<open>
  A directory entry as \<open>cleanup_images\<close> sees it: the directory that holds it, its name,
  the outcome of \<open>os.path.getmtime\<close> and the exception \<open>os.remove\<close> would raise, if any. A
  file system is a list of entries with distinct paths.
\<close>

record entry =
  file_dir :: string
  file_name :: string
  mtime :: "exn + real"
  remove_error :: "exn option"

definition file_path :: "entry \<Rightarrow> string" where
  "file_path f = path_join (file_dir f) (file_name f)"

definition ends_with :: "string \<Rightarrow> string \<Rightarrow> bool" where
  "ends_with sfx s = (length sfx \<le> length s \<and> drop (length s - length sfx) s = sfx)"

text \<open>
  The last component of the pattern, \<open>*.jpg\<close>: a name that ends in \<open>.jpg\<close>; a pattern that
  starts with \<open>*\<close> skips names that start with a dot.
\<close>

definition matches_jpg :: "string \<Rightarrow> bool" where
  "matches_jpg name = (take 1 name \<noteq> ''.'' \<and> ends_with ''.jpg'' name)"

text \<open>\<open>glob.has_magic\<close>: the name contains \<open>*\<close>, \<open>?\<close> or \<open>[\<close>.\<close>

definition has_magic :: "string \<Rightarrow> bool" where
  "has_magic s = (CHR ''*'' \<in> set s \<or> CHR ''?'' \<in> set s \<or> CHR ''['' \<in> set s)"

text \<open>
  The directories that \<open>glob.glob(os.path.join(image_dir, "*.jpg"))\<close> searches. The
  directory is passed unescaped, so \<open>glob\<close> reads it as a pattern: when it has a magic
  character the directories searched are those that \<open>glob\<close> itself finds for it, here the
  parameter \<open>iglob\<close> (\<open>iglob p d\<close>: pattern \<open>p\<close> selects directory \<open>d\<close>); otherwise the one
  directory named.
\<close>

definition searched :: "(string \<Rightarrow> string \<Rightarrow> bool) \<Rightarrow> string \<Rightarrow> string \<Rightarrow> bool" where
  "searched iglob image_dir d =
     (if has_magic image_dir then iglob image_dir d else d = image_dir)"

text \<open>\<open>glob.glob(os.path.join(image_dir, "*.jpg"))\<close> on the file system \<open>fs\<close>.\<close>

definition glob_jpg ::
  "(string \<Rightarrow> string \<Rightarrow> bool) \<Rightarrow> string \<Rightarrow> entry list \<Rightarrow> entry list" where
  "glob_jpg iglob image_dir fs =
     filter (\<lambda>f. searched iglob image_dir (file_dir f) \<and> matches_jpg (file_name f)) fs"

text \<open>The loop \<open>for file in files\<close> over the remaining matches, on the file system \<open>fs\<close>.\<close>

fun sweep :: "real \<Rightarrow> real \<Rightarrow> entry list \<Rightarrow> entry list \<Rightarrow> entry list \<times> event list" where
  "sweep now max_age_seconds [] fs = (fs, [])"
| "sweep now max_age_seconds (f # files) fs =
     (case mtime f of
        Inl e \<Rightarrow>
          (case sweep now max_age_seconds files fs of
             (fs', tr) \<Rightarrow> (fs', Log (''Error deleting file '' @ file_path f) # tr))
      | Inr m \<Rightarrow>
          if now - m > max_age_seconds then
            (case remove_error f of
               None \<Rightarrow>
                 (case sweep now max_age_seconds files (removeAll f fs) of
                    (fs', tr) \<Rightarrow> (fs', Remove (file_path f) # tr))
             | Some e \<Rightarrow>
                 (case sweep now max_age_seconds files fs of
                    (fs', tr) \<Rightarrow> (fs', Log (''Error deleting file '' @ file_path f) # tr)))
          else sweep now max_age_seconds files fs)"

text \<open>The value a Python function hands back; a body without \<open>return\<close> gives \<open>None\<close>.\<close>

datatype pyret = PyNone | PyInt int

definition cleanup_images ::
  "(string \<Rightarrow> string \<Rightarrow> bool) \<Rightarrow> real \<Rightarrow> entry list \<Rightarrow> string \<Rightarrow> real
     \<Rightarrow> pyret \<times> entry list \<times> event list" where
  "cleanup_images iglob now fs image_dir max_age_seconds =
     (case sweep now max_age_seconds (glob_jpg iglob image_dir fs) fs of
        (fs', tr) \<Rightarrow> (PyNone, fs', tr))"



section \<open>The two loops: main.py and capture\_dataset.py\<close>

text \<open>How one pass through a \<open>while True\<close> body ends.\<close>

datatype 'st step =
    Continue 'st
  | Break
  | Exit int
  | Uncaught exn

text \<open>How a run over a finite script of passes ends; \<open>Running\<close>: the loop is still going.\<close>

datatype 'st run =
    Running 'st
  | Completed
  | Exited int
  | Crashed exn

subsection \<open>Values read from the configuration\<close>

text \<open>
  Values that the loops take from \<open>config.get\<close> are whatever the YAML file holds. In
  arithmetic and comparisons with a float a number counts as itself and a boolean as 0 or 1;
  anything else raises \<open>TypeError\<close>.
\<close>

fun py_number :: "json \<Rightarrow> real option" where
  "py_number (JNum r) = Some r"
| "py_number (JBool b) = Some (if b then 1 else 0)"
| "py_number v = None"

text \<open>
  \<open>time.sleep(secs)\<close> with a length that comes from the configuration: it raises
  \<open>ValueError\<close> for a negative length and \<open>OverflowError\<close> for one that does not fit a
  64-bit count of nanoseconds.
\<close>

definition sleep_limit :: real where
  "sleep_limit = 2 ^ 63 / 10 ^ 9"

definition time_sleep :: "real \<Rightarrow> exn + event" where
  "time_sleep secs =
     (if secs < 0 then Inl ValueError
      else if secs \<ge> sleep_limit then Inl OverflowError
      else Inr (Sleep secs))"

subsection \<open>main.py: main\_loop\<close>

text \<open>The local variables that \<open>main_loop\<close> binds before its loop.\<close>

record main_locals =
  m_prompt :: string
  m_cam_type :: string
  m_camera_index :: int
  m_image_dir :: string
  m_capture_interval :: json
  m_cleanup_age :: real
  m_user_email :: string
  m_api_base_url :: string
  m_config :: reolink_config

text \<open>What the outside world does during one pass of \<open>main_loop\<close>.\<close>

record main_env =
  m_capture :: capture_env
  m_analysis :: analysis_env
  m_now :: real
  m_files :: "entry list"

text \<open>
  Step 3 of the body (\<open>if result: ... else: ...\<close>): the lines logged, or the exception that
  \<open>json.loads(result)\<close> or \<open>result.get\<close> raises.
\<close>

definition check_water :: "(string \<Rightarrow> exn + json) \<Rightarrow> json \<Rightarrow> exn + event list" where
  "check_water loads result =
     (if truthy result then
        (case (case result of JStr s \<Rightarrow> loads s | _ \<Rightarrow> Inr result) of
           Inl e \<Rightarrow> Inl e
         | Inr r \<Rightarrow>
             (case r of
                JObj kvs \<Rightarrow>
                  (if truthy (case map_of kvs ''water_detected'' of
                                None \<Rightarrow> JBool False | Some v \<Rightarrow> v)
                   then Inr [Log ''ALERT: Water detected on the floor!'']
                   else Inr [Log ''No water detected on the floor.''])
              | _ \<Rightarrow> Inl AttributeError))
      else Inr [Log ''Analysis returned no result (Veolia API may have failed).''])"

text \<open>Step 1: the capture call of the pass.\<close>

definition main_capture :: "main_locals \<Rightarrow> main_env \<Rightarrow> (exn + string option) \<times> event list" where
  "main_capture L env =
     (if m_cam_type L = ''reolink''
      then capture_image_reolink (m_capture env) (m_config L) ''image'' default_retries
      else capture_image_local (m_capture env) (m_image_dir L) ''image''
             (m_camera_index L) default_retries)"

text \<open>
  One pass of the body. \<open>loads\<close> is \<open>json.loads\<close> and \<open>iglob\<close> the directory search of
  \<open>glob\<close>. Nothing in the body catches an exception.
\<close>

definition main_loop_iteration ::
  "(string \<Rightarrow> exn + json) \<Rightarrow> (string \<Rightarrow> string \<Rightarrow> bool) \<Rightarrow> main_locals \<Rightarrow> main_env
     \<Rightarrow> VeoliaTokenManager \<Rightarrow> VeoliaTokenManager step \<times> event list" where
  "main_loop_iteration loads iglob L env token_manager =
     (case main_capture L env of
        (Inl e, ctr) \<Rightarrow> (Uncaught e, ctr)
      | (Inr None, ctr) \<Rightarrow> (Exit 1, ctr)
      | (Inr (Some image_path), ctr) \<Rightarrow>
          (case analyze_image_veolia loads (m_analysis env) image_path (m_prompt L)
                  token_manager (m_user_email L) (m_api_base_url L) 3 of
             (result, tm, atr) \<Rightarrow>
               (case check_water loads result of
                  Inl e \<Rightarrow> (Uncaught e, ctr @ atr)
                | Inr logs \<Rightarrow>
                    (case cleanup_images iglob (m_now env) (m_files env) (m_image_dir L)
                            (m_cleanup_age L) of
                       (r, fs', str) \<Rightarrow>
                         (case py_number (m_capture_interval L) of
                            None \<Rightarrow> (Uncaught TypeError, ctr @ atr @ logs @ str)
                          | Some secs \<Rightarrow>
                              (case time_sleep secs of
                                 Inl e \<Rightarrow> (Uncaught e, ctr @ atr @ logs @ str)
                               | Inr pause \<Rightarrow>
                                   (Continue tm, ctr @ atr @ logs @ str @ [pause])))))))"

fun main_loop ::
  "(string \<Rightarrow> exn + json) \<Rightarrow> (string \<Rightarrow> string \<Rightarrow> bool) \<Rightarrow> main_locals \<Rightarrow> main_env list
     \<Rightarrow> VeoliaTokenManager \<Rightarrow> VeoliaTokenManager run \<times> event list" where
  "main_loop loads iglob L [] token_manager = (Running token_manager, [])"
| "main_loop loads iglob L (env # envs) token_manager =
     (case main_loop_iteration loads iglob L env token_manager of
        (Continue tm, tr) \<Rightarrow>
          (case main_loop loads iglob L envs tm of (r, tr') \<Rightarrow> (r, tr @ tr'))
      | (Break, tr) \<Rightarrow> (Completed, tr)
      | (Exit code, tr) \<Rightarrow> (Exited code, tr)
      | (Uncaught e, tr) \<Rightarrow> (Crashed e, tr))"

subsection \<open>capture\_dataset.py: main\<close>

definition MAX_CONSECUTIVE_FAILURES :: int where
  "MAX_CONSECUTIVE_FAILURES = 10"

text \<open>The local variables that \<open>main\<close> binds before its loop.\<close>

record dataset_locals =
  d_capture_interval :: json
  d_max_duration_seconds :: json
  d_dataset_dir :: string
  d_cam_type :: string
  d_camera_index :: int
  d_drive_enabled :: bool
  d_drive_folder_id :: "string option"
  d_config :: reolink_config

text \<open>
  What the outside world does during one pass of \<open>main\<close>: the seconds since \<open>start_time\<close>
  at step 4a, the value of \<open>time.strftime("%Y%m%d")\<close>, the exception raised by
  \<open>os.makedirs(daily_dir)\<close> if any, the capture, and \<open>loop_end - loop_start\<close>.
\<close>

record dataset_env =
  e_elapsed :: real
  e_today :: string
  e_makedirs_error :: "exn option"
  e_capture :: capture_env
  e_loop_elapsed :: real

text \<open>
  Step 4a, before the \<open>try\<close>: \<open>elapsed >= max_duration_seconds\<close> unless the limit is
  \<open>None\<close>; \<open>Inl\<close> when the comparison raises.
\<close>

definition duration_check :: "dataset_locals \<Rightarrow> dataset_env \<Rightarrow> exn + bool" where
  "duration_check L env =
     (case d_max_duration_seconds L of
        JNull \<Rightarrow> Inr False
      | v \<Rightarrow>
          (case py_number v of
             None \<Rightarrow> Inl TypeError
           | Some d \<Rightarrow> Inr (e_elapsed env \<ge> d)))"

text \<open>
  Step 8, after the \<open>try\<close>: \<open>remaining = capture_interval - elapsed\<close> and the sleep for
  it when it is positive; \<open>Inl\<close> when the subtraction or the sleep raises.
\<close>

definition interval_sleep :: "dataset_locals \<Rightarrow> dataset_env \<Rightarrow> exn + event list" where
  "interval_sleep L env =
     (case py_number (d_capture_interval L) of
        None \<Rightarrow> Inl TypeError
      | Some i \<Rightarrow>
          if i - e_loop_elapsed env > 0 then
            (case time_sleep (i - e_loop_elapsed env) of
               Inl e \<Rightarrow> Inl e
             | Inr pause \<Rightarrow> Inr [pause])
          else Inr [])"

definition daily_dir :: "dataset_locals \<Rightarrow> dataset_env \<Rightarrow> string" where
  "daily_dir L env = path_join (d_dataset_dir L) (e_today env)"

text \<open>Step 6: the capture call of the pass; both branches treat its result alike.\<close>

definition dataset_capture ::
  "dataset_locals \<Rightarrow> dataset_env \<Rightarrow> (exn + string option) \<times> event list" where
  "dataset_capture L env =
     (if d_cam_type L = ''reolink''
      then capture_image_reolink (e_capture env)
             ((d_config L)\<lparr>cfg_image_dir := Some (daily_dir L env)\<rparr>)
             ''dataset_image'' default_retries
      else capture_image_local (e_capture env) (daily_dir L env) ''dataset_image''
             (d_camera_index L) default_retries)"

text \<open>
  One pass of the body. The \<open>try\<close> block spans the making of the daily directory, the
  capture and the upload; what it raises is caught, the duration check before it and the
  interval sleep after it are not covered.
\<close>

definition dataset_iteration ::
  "dataset_locals \<Rightarrow> dataset_env \<Rightarrow> int \<Rightarrow> int step \<times> event list" where
  "dataset_iteration L env consecutive_failures =
     (case duration_check L env of
        Inl e \<Rightarrow> (Uncaught e, [])
      | Inr True \<Rightarrow> (Break, [])
      | Inr False \<Rightarrow>
        (case e_makedirs_error env of
           Some e \<Rightarrow> (Continue consecutive_failures, [MakeDirs (daily_dir L env), Sleep 10])
         | None \<Rightarrow>
             (case dataset_capture L env of
                (Inl e, ctr) \<Rightarrow>
                  (Continue consecutive_failures, MakeDirs (daily_dir L env) # ctr @ [Sleep 10])
              | (Inr None, ctr) \<Rightarrow>
                  if consecutive_failures + 1 \<ge> MAX_CONSECUTIVE_FAILURES
                  then (Exit 1, MakeDirs (daily_dir L env) # ctr)
                  else (Continue (consecutive_failures + 1),
                        MakeDirs (daily_dir L env) # ctr @ [Sleep 10])
              | (Inr (Some image_path), ctr) \<Rightarrow>
                  (case interval_sleep L env of
                     Inl e \<Rightarrow>
                       (Uncaught e,
                        MakeDirs (daily_dir L env) # ctr
                          @ (if d_drive_enabled L \<and> truthy_str (d_drive_folder_id L)
                             then [Upload image_path] else []))
                   | Inr pause \<Rightarrow>
                       (Continue 0,
                        MakeDirs (daily_dir L env) # ctr
                          @ (if d_drive_enabled L \<and> truthy_str (d_drive_folder_id L)
                             then [Upload image_path] else [])
                          @ pause)))))"

fun dataset_loop ::
  "dataset_locals \<Rightarrow> dataset_env list \<Rightarrow> int \<Rightarrow> int run \<times> event list" where
  "dataset_loop L [] consecutive_failures = (Running consecutive_failures, [])"
| "dataset_loop L (env # envs) consecutive_failures =
     (case dataset_iteration L env consecutive_failures of
        (Continue c, tr) \<Rightarrow> (case dataset_loop L envs c of (r, tr') \<Rightarrow> (r, tr @ tr'))
      | (Break, tr) \<Rightarrow> (Completed, tr)
      | (Exit code, tr) \<Rightarrow> (Exited code, tr)
      | (Uncaught e, tr) \<Rightarrow> (Crashed e, tr))"

text \<open>\<open>main\<close> starts its loop with \<open>consecutive_failures = 0\<close>.\<close>

definition dataset_main :: "dataset_locals \<Rightarrow> dataset_env list \<Rightarrow> int run \<times> event list" where
  "dataset_main L envs = dataset_loop L envs 0"

text \<open>A pass whose capture call returns \<open>None\<close>.\<close>

definition capture_fails :: "dataset_locals \<Rightarrow> dataset_env \<Rightarrow> bool" where
  "capture_fails L env =
     (duration_check L env = Inr False \<and> e_makedirs_error env = None
      \<and> fst (dataset_capture L env) = Inr None)"

text \<open>
  A pass in which the statements outside the \<open>try\<close> cannot raise: the duration limit is
  \<open>None\<close> or a number, and the interval is a number whose remaining part \<open>time.sleep\<close>
  accepts.
\<close>

definition config_ok :: "dataset_locals \<Rightarrow> dataset_env \<Rightarrow> bool" where
  "config_ok L env =
     ((case d_max_duration_seconds L of
         JNull \<Rightarrow> True
       | v \<Rightarrow> (case py_number v of None \<Rightarrow> False | Some d \<Rightarrow> True))
      \<and> (case py_number (d_capture_interval L) of
            None \<Rightarrow> False
          | Some i \<Rightarrow> i - e_loop_elapsed env < sleep_limit))"

subsection \<open>Sample inputs: the token scenario\<close>

definition abc_reply :: "int \<Rightarrow> exn + token_response" where
  "abc_reply lifetime =
     Inr \<lparr>token_status = 200,
          token_json = Some \<lparr>td_access_token = Some ''abc'', td_expires_in = IntValue lifetime\<rparr>\<rparr>"

definition fresh_manager :: VeoliaTokenManager where
  "fresh_manager = VeoliaTokenManager_init ''id'' ''secret''"

text \<open>The manager of a new \<open>VeoliaTokenManager\<close> after its first \<open>get_token\<close>, answered by \<open>abc_reply L\<close> at time \<open>t0\<close>.\<close>

definition after_abc :: "real \<Rightarrow> int \<Rightarrow> string \<Rightarrow> string \<Rightarrow> VeoliaTokenManager" where
  "after_abc t0 L cid sec =
     fst (snd (get_token t0 (abc_reply L) (VeoliaTokenManager_init cid sec)))"

definition server_error_reply :: "exn + token_response" where
  "server_error_reply = Inr \<lparr>token_status = 503, token_json = None\<rparr>"

definition cached_manager :: VeoliaTokenManager where
  "cached_manager =
     \<lparr>client_id = ''id'', client_secret = ''secret'', token = Some ''old'', expiry = 100\<rparr>"

subsection \<open>Sample inputs: the analysis client\<close>

text \<open>
  A body of 100000 nested empty lists; \<open>json.loads\<close> gives up on it with
  \<open>RecursionError\<close>.
\<close>

definition deep_body :: string where
  "deep_body = replicate 100000 (CHR ''['') @ replicate 100000 (CHR '']'')"

text \<open>
  \<open>json.loads\<close> on the texts the examples use: \<open>[1]\<close> is a list, \<open>5\<close> a number, the deep
  body exceeds the recursion limit; every other text of the examples is not JSON.
\<close>

definition sample_loads :: "string \<Rightarrow> exn + json" where
  "sample_loads s =
     (if s = ''[1]'' then Inr (JArr [JNum 1])
      else if s = ''5'' then Inr (JNum 5)
      else if s = deep_body then Inl RecursionError
      else Inl JSONDecodeError)"

definition reply_deep_then_ok :: "nat \<Rightarrow> exn + response" where
  "reply_deep_then_ok k =
     (if k = 0 then Inr \<lparr>status_code = 200, body_text = deep_body\<rparr>
      else Inr \<lparr>status_code = 200, body_text = ''[1]''\<rparr>)"

definition reply_500_then_ok :: "nat \<Rightarrow> exn + response" where
  "reply_500_then_ok k =
     (if k = 0 then Inr \<lparr>status_code = 500, body_text = ''busy''\<rparr>
      else Inr \<lparr>status_code = 200, body_text = ''[1]''\<rparr>)"

definition reply_500_then_html :: "nat \<Rightarrow> exn + response" where
  "reply_500_then_html k =
     (if k = 0 then Inr \<lparr>status_code = 500, body_text = ''busy''\<rparr>
      else Inr \<lparr>status_code = 200, body_text = ''<html>''\<rparr>)"

definition reply_always_500 :: "nat \<Rightarrow> exn + response" where
  "reply_always_500 k = Inr \<lparr>status_code = 500, body_text = ''busy''\<rparr>"

definition half_jitter :: "nat \<Rightarrow> real" where
  "half_jitter k = 1 / 2"

definition sample_analysis_env :: "(nat \<Rightarrow> exn + response) \<Rightarrow> analysis_env" where
  "sample_analysis_env reply =
     \<lparr>image_b64 = Inr ''QUJD'', token_time = 1000, token_reply = abc_reply 61,
      api_reply = reply, jitter = half_jitter\<rparr>"

definition sample_post :: event where
  "sample_post =
     HttpPost ''https://api/analyze'' (analysis_headers ''abc'')
       (JsonBody (analysis_payload ''me@x'' ''water?'' ''QUJD''))"

subsection \<open>Sample inputs: the cameras\<close>

definition ok_from :: "nat \<Rightarrow> nat \<Rightarrow> bool" where
  "ok_from n k = (n \<le> k)"

definition snap_ok_from :: "nat \<Rightarrow> nat \<Rightarrow> exn + response" where
  "snap_ok_from n k =
     (if k < n then Inr \<lparr>status_code = 503, body_text = ''''\<rparr>
      else Inr \<lparr>status_code = 200, body_text = ''JFIF''\<rparr>)"

definition save_fails_before :: "nat \<Rightarrow> nat \<Rightarrow> exn option" where
  "save_fails_before n k = (if k < n then Some OSError else None)"

definition sample_stamp :: "nat \<Rightarrow> string" where
  "sample_stamp k =
     (if k = 0 then ''20250321-120000''
      else if k = 1 then ''20250321-120001''
      else ''20250321-120002'')"

text \<open>A world in which the first \<open>n\<close> attempts of either camera fail.\<close>

definition sample_capture_env :: "nat \<Rightarrow> capture_env" where
  "sample_capture_env n =
     \<lparr>makedirs_error = None, frame = ok_from n, snapshot = snap_ok_from n,
      save_error = save_fails_before 0, strftime = sample_stamp, random_str = ''a1b2c3''\<rparr>"

text \<open>A world in which the camera always answers 200 and the first write fails.\<close>

definition broken_write_env :: capture_env where
  "broken_write_env =
     \<lparr>makedirs_error = None, frame = ok_from 0, snapshot = snap_ok_from 0,
      save_error = save_fails_before 1, strftime = sample_stamp, random_str = ''a1b2c3''\<rparr>"

definition sample_reolink_config :: reolink_config where
  "sample_reolink_config =
     \<lparr>cam_ip = Some ''10.0.0.5'', cam_user = Some ''admin'', cam_password = Some ''pw'',
      cfg_image_dir = Some ''imgs''\<rparr>"

subsection \<open>Sample inputs: a directory to sweep\<close>

definition jpg_at :: "string \<Rightarrow> string \<Rightarrow> real \<Rightarrow> entry" where
  "jpg_at d name t = \<lparr>file_dir = d, file_name = name, mtime = Inr t, remove_error = None\<rparr>"

definition locked_jpg :: entry where
  "locked_jpg =
     \<lparr>file_dir = ''imgs'', file_name = ''locked.jpg'', mtime = Inr 100,
      remove_error = Some OSError\<rparr>"

definition vanished_jpg :: entry where
  "vanished_jpg =
     \<lparr>file_dir = ''imgs'', file_name = ''gone.jpg'', mtime = Inl OSError, remove_error = None\<rparr>"

text \<open>
  At time 1000 with a limit of 300 seconds: two old images around a locked one and a
  vanished one, a fresh image, an old image in a subdirectory, an old hidden image and an
  old file of another type.
\<close>

definition sample_files :: "entry list" where
  "sample_files =
     [jpg_at ''imgs'' ''old1.jpg'' 100,
      locked_jpg,
      vanished_jpg,
      jpg_at ''imgs'' ''old2.jpg'' 699,
      jpg_at ''imgs'' ''new.jpg'' 700,
      jpg_at ''imgs/sub'' ''deep.jpg'' 100,
      jpg_at ''imgs'' ''.hidden.jpg'' 100,
      jpg_at ''imgs'' ''notes.png'' 100]"

text \<open>
  The directory search of \<open>glob\<close> for the one magic pattern the examples use: \<open>img[1]\<close>
  selects the directory \<open>img1\<close>.
\<close>

definition sample_iglob :: "string \<Rightarrow> string \<Rightarrow> bool" where
  "sample_iglob p d = (p = ''img[1]'' \<and> d = ''img1'')"


subsection \<open>Sample inputs: the loops\<close>

definition sample_dataset_locals :: dataset_locals where
  "sample_dataset_locals =
     \<lparr>d_capture_interval = JNum 60, d_max_duration_seconds = JNull,
      d_dataset_dir = ''dataset_images'', d_cam_type = ''local'', d_camera_index = 0,
      d_drive_enabled = False, d_drive_folder_id = None, d_config = sample_reolink_config\<rparr>"

text \<open>A pass in which the first \<open>n\<close> reads of the camera fail.\<close>

definition dataset_pass :: "nat \<Rightarrow> dataset_env" where
  "dataset_pass n =
     \<lparr>e_elapsed = 0, e_today = ''20250321'', e_makedirs_error = None,
      e_capture = sample_capture_env n, e_loop_elapsed = 5\<rparr>"

text \<open>A pass in which the daily directory cannot be created.\<close>

definition dataset_pass_no_dir :: dataset_env where
  "dataset_pass_no_dir =
     \<lparr>e_elapsed = 0, e_today = ''20250321'', e_makedirs_error = Some OSError,
      e_capture = sample_capture_env 0, e_loop_elapsed = 5\<rparr>"

definition sample_main_locals :: main_locals where
  "sample_main_locals =
     \<lparr>m_prompt = ''water?'', m_cam_type = ''local'', m_camera_index = 0,
      m_image_dir = ''imgs'', m_capture_interval = JNum 10, m_cleanup_age = 300,
      m_user_email = ''me@x'', m_api_base_url = ''https://api/analyze'',
      m_config = sample_reolink_config\<rparr>"

definition reply_number :: "nat \<Rightarrow> exn + response" where
  "reply_number k = Inr \<lparr>status_code = 200, body_text = ''5''\<rparr>"

text \<open>
  A pass of \<open>main_loop\<close> in which the first \<open>n\<close> reads of the camera fail and the analysis
  service answers \<open>reply\<close>.
\<close>

definition main_pass :: "nat \<Rightarrow> (nat \<Rightarrow> exn + response) \<Rightarrow> main_env" where
  "main_pass n reply =
     \<lparr>m_capture = sample_capture_env n, m_analysis = sample_analysis_env reply,
      m_now = 1000, m_files = sample_files\<rparr>"

text \<open>A pass in which the capture function itself raises (its directory cannot be made).\<close>

definition dataset_pass_capture_raises :: dataset_env where
  "dataset_pass_capture_raises =
     \<lparr>e_elapsed = 0, e_today = ''20250321'', e_makedirs_error = None,
      e_capture = (sample_capture_env 0)\<lparr>makedirs_error := Some OSError\<rparr>,
      e_loop_elapsed = 5\<rparr>"

text \<open>The same locals with \<open>dataset_capture_interval:\<close> left empty in the YAML file.\<close>

definition null_interval_locals :: dataset_locals where
  "null_interval_locals = sample_dataset_locals\<lparr>d_capture_interval := JNull\<rparr>"

section \<open>Credential cache\<close>

lemma get_token_fresh:
  "get_token t0 (abc_reply L) (VeoliaTokenManager_init cid sec) =
     (Some ''abc'',
      \<lparr>client_id = cid, client_secret = sec, token = Some ''abc'', expiry = t0 + real_of_int L\<rparr>,
      [token_request (VeoliaTokenManager_init cid sec)])"
  by (simp add: get_token_def abc_reply_def VeoliaTokenManager_init_def)

text \<open>
  C4 as stated: after \<open>{access_token: "abc", expires_in: 10}\<close> at \<open>t0 = 1000\<close>, a call at
  \<open>t0 + 5\<close> would send nothing. It does send a request: the 60 second margin makes a
  10 second token stale at once.
\<close>

theorem C4_counterexample:
  "snd (snd (get_token 1005 (abc_reply 10)
       (fst (snd (get_token 1000 (abc_reply 10) fresh_manager))))) \<noteq> []"
  by (simp add: get_token_def abc_reply_def fresh_manager_def VeoliaTokenManager_init_def)

text \<open>
  C4, amended: after \<open>{access_token: "abc", expires_in: L}\<close> obtained at \<open>t0\<close> by a new
  manager, a call at time \<open>t\<close> returns \<open>"abc"\<close> with no request exactly when
  \<open>t < t0 + L - 60\<close>, and sends one refresh request otherwise. For \<open>L = 10\<close> the calls at
  \<open>t0 + 5\<close> and at \<open>t0 + 11\<close> both send a refresh request.
\<close>

theorem C4_cache_window:
  fixes t0 t :: real and L :: int
  shows "fst (get_token t0 (abc_reply L) (VeoliaTokenManager_init cid sec)) = Some ''abc''
       \<and> snd (snd (get_token t reply (after_abc t0 L cid sec))) =
           (if t < t0 + real_of_int L - 60 then []
            else [token_request (after_abc t0 L cid sec)])
       \<and> (t < t0 + real_of_int L - 60 \<longrightarrow>
            get_token t reply (after_abc t0 L cid sec)
              = (Some ''abc'', after_abc t0 L cid sec, []))
       \<and> snd (snd (get_token (t0 + 5) reply (after_abc t0 10 cid sec))) =
           [token_request (after_abc t0 10 cid sec)]
       \<and> snd (snd (get_token (t0 + 11) reply (after_abc t0 10 cid sec))) =
           [token_request (after_abc t0 10 cid sec)]"
proof -
  have tm1: "after_abc t0 K cid sec =
      \<lparr>client_id = cid, client_secret = sec, token = Some ''abc'',
       expiry = t0 + real_of_int K\<rparr>" for K
    by (simp add: after_abc_def get_token_fresh)
  have a: "fst (get_token t0 (abc_reply L) (VeoliaTokenManager_init cid sec)) = Some ''abc''"
    by (simp add: get_token_fresh)
  have b: "snd (snd (get_token t reply (after_abc t0 L cid sec))) =
           (if t < t0 + real_of_int L - 60 then []
            else [token_request (after_abc t0 L cid sec)])"
    by (simp add: tm1 get_token_def split: sum.splits option.splits expires_field.splits)
  have c: "t < t0 + real_of_int L - 60 \<Longrightarrow>
      get_token t reply (after_abc t0 L cid sec) = (Some ''abc'', after_abc t0 L cid sec, [])"
    by (simp add: tm1 get_token_def)
  have d: "snd (snd (get_token (t0 + d) reply (after_abc t0 10 cid sec))) =
           [token_request (after_abc t0 10 cid sec)]" if "0 \<le> d" for d :: real
    using that
    by (simp add: tm1 get_token_def split: sum.splits option.splits expires_field.splits)
  show ?thesis using a b c d [of 5] d [of 11] by simp
qed

theorem C4_witness:
  "(1005::real) < 1000 + real_of_int 3600 - 60
   \<and> get_token 1005 (Inl RequestException) (after_abc 1000 3600 ''id'' ''secret'')
       = (Some ''abc'', after_abc 1000 3600 ''id'' ''secret'', [])"
  using C4_cache_window [of 1000 3600 "''id''" "''secret''" 1005 "Inl RequestException"]
  by simp

text \<open>
  C6: when the cache does not answer and the refresh request raises or gets a status outside
  200..299, \<open>get_token\<close> returns \<open>None\<close>, leaves the manager as it was and has sent exactly one
  request.
\<close>

theorem C6_refresh_failure_keeps_cache:
  assumes "\<not> (truthy_str (token tm) \<and> now < expiry tm - 60)"
    and "reply = Inl e \<or> (reply = Inr resp \<and> (token_status resp < 200 \<or> 300 \<le> token_status resp))"
  shows "get_token now reply tm = (None, tm, [token_request tm])"
  using assms by (auto simp: get_token_def)

theorem C6_witness:
  "\<not> (truthy_str (token cached_manager) \<and> (50::real) < expiry cached_manager - 60)
   \<and> token_status \<lparr>token_status = 503, token_json = None\<rparr> \<ge> 300
   \<and> get_token 50 server_error_reply cached_manager
       = (None, cached_manager, [token_request cached_manager])
   \<and> get_token 50 (Inl RequestException) cached_manager
       = (None, cached_manager, [token_request cached_manager])"
proof -
  have h: "\<not> (truthy_str (token cached_manager) \<and> (50::real) < expiry cached_manager - 60)"
    by (simp add: cached_manager_def)
  have r: "server_error_reply = Inr \<lparr>token_status = 503, token_json = None\<rparr>"
    by (simp add: server_error_reply_def)
  show ?thesis
    using h
      C6_refresh_failure_keeps_cache [OF h, of server_error_reply RequestException
        "\<lparr>token_status = 503, token_json = None\<rparr>"]
      C6_refresh_failure_keeps_cache [OF h, of "Inl RequestException" RequestException
        "\<lparr>token_status = 503, token_json = None\<rparr>"]
    by (simp add: r)
qed

section \<open>The analysis client\<close>

lemma get_token_trace:
  "get_token t reply tm = (r, tm', ttr) \<Longrightarrow> ttr = [] \<or> ttr = [token_request tm]"
  by (auto simp: get_token_def split: if_splits sum.splits option.splits expires_field.splits)

lemma analysis_attempts_failed_prefix:
  "(\<And>j. j < k \<Longrightarrow> failed loads (reply (a + j))) \<Longrightarrow>
   analysis_attempts loads reply jit url h p a (k + n) =
     (fst (analysis_attempts loads reply jit url h p (a + k) n),
      backoff_trace (HttpPost url h (JsonBody p)) jit a k
        @ snd (analysis_attempts loads reply jit url h p (a + k) n))"
proof (induction k arbitrary: a)
  case 0
  show ?case by simp
next
  case (Suc k)
  have f0: "failed loads (reply a)" using Suc.prems [of 0] by simp
  have "\<And>j. j < k \<Longrightarrow> failed loads (reply (Suc a + j))" using Suc.prems [of "Suc j" for j] by simp
  from Suc.IH [OF this] f0 show ?case
    by (auto simp: failed_def split: sum.splits prod.splits if_splits)
qed

lemma analysis_attempts_events:
  "set (snd (analysis_attempts loads reply jit url h p a n))
     \<subseteq> insert (HttpPost url h (JsonBody p)) (range Sleep)"
proof (induction n arbitrary: a)
  case 0
  show ?case by simp
next
  case (Suc n)
  obtain r tr where eq: "analysis_attempts loads reply jit url h p (Suc a) n = (r, tr)"
    by (cases "analysis_attempts loads reply jit url h p (Suc a) n")
  with Suc.IH [of "Suc a"] have "set tr \<subseteq> insert (HttpPost url h (JsonBody p)) (range Sleep)"
    by simp
  with eq show ?case
    by (auto split: sum.splits option.splits)
qed

lemma api_posts_backoff:
  "api_posts (backoff_trace (HttpPost url h (JsonBody p)) jit a k) = k"
  by (induction k arbitrary: a) (auto simp: api_posts_def is_api_post_def)

lemma length_backoff: "length (backoff_trace req jit a k) = 2 * k"
  by (induction k arbitrary: a) auto

lemma backoff_nth:
  "j < k \<Longrightarrow> backoff_trace req jit a k ! (2 * j) = req
     \<and> backoff_trace req jit a k ! (2 * j + 1) = Sleep (2 ^ (a + j) + jit (a + j))"
proof (induction k arbitrary: a j)
  case 0 then show ?case by simp
next
  case (Suc k)
  show ?case
  proof (cases j)
    case 0 then show ?thesis by simp
  next
    case (Suc i)
    with Suc.prems have "i < k" by simp
    from Suc.IH [OF this, of "Suc a"] Suc show ?thesis by simp
  qed
qed

lemma length_deep_body: "length deep_body = 200000"
  by (simp add: deep_body_def)

lemma sample_loads_short:
  "length s < 200000 \<Longrightarrow>
   sample_loads s = (if s = ''[1]'' then Inr (JArr [JNum 1])
                     else if s = ''5'' then Inr (JNum 5) else Inl JSONDecodeError)"
  using length_deep_body by (auto simp: sample_loads_def)

lemma dropWhile_hd: "xs \<noteq> [] \<Longrightarrow> \<not> P (hd xs) \<Longrightarrow> dropWhile P xs = xs"
  by (cases xs) simp_all

lemma py_strip_deep_body: "py_strip deep_body = deep_body"
proof -
  have ne: "deep_body \<noteq> []" and h: "hd deep_body = CHR ''[''" and l: "last deep_body = CHR '']''"
    by (simp_all add: deep_body_def hd_append)
  have a: "dropWhile is_space deep_body = deep_body"
    using ne h by (intro dropWhile_hd) (simp_all add: is_space_def)
  have "hd (rev deep_body) = CHR '']''"
    using ne l by (simp add: hd_rev)
  then have b: "dropWhile is_space (rev deep_body) = rev deep_body"
    using ne by (intro dropWhile_hd) (simp_all add: is_space_def)
  show ?thesis
    by (simp add: py_strip_def a b)
qed

lemma deep_body_not_short: "length s < 200000 \<Longrightarrow> deep_body \<noteq> s"
  using length_deep_body by auto

lemma sample_loads_deep: "sample_loads (py_strip deep_body) = Inl RecursionError"
  by (simp add: py_strip_deep_body sample_loads_def deep_body_not_short)

lemma api_posts_token_trace:
  "get_token t reply tm = (r, tm', ttr) \<Longrightarrow> api_posts (ReadFile path # ttr @ tr) = api_posts tr"
  using get_token_trace [of t reply tm r tm' ttr]
  by (auto simp: api_posts_def is_api_post_def token_request_def)

lemma analyze_with_token:
  assumes "image_b64 env = Inr b64"
    and "get_token (token_time env) (token_reply env) tm = (Some tok, tm', ttr)"
    and "tok \<noteq> []"
  shows "analyze_image_veolia loads env path prompt tm email url retries =
     (fst (analysis_attempts loads (api_reply env) (jitter env) url (analysis_headers tok)
             (analysis_payload email prompt b64) 0 (nat retries)),
      tm',
      ReadFile path # ttr @
        snd (analysis_attempts loads (api_reply env) (jitter env) url (analysis_headers tok)
               (analysis_payload email prompt b64) 0 (nat retries)))"
  using assms by (simp add: analyze_image_veolia_def split: prod.splits)

lemma sample_token:
  "get_token (token_time (sample_analysis_env r)) (token_reply (sample_analysis_env r)) fresh_manager
     = (Some ''abc'', after_abc 1000 61 ''id'' ''secret'', [token_request fresh_manager])"
  by (simp add: sample_analysis_env_def fresh_manager_def get_token_fresh after_abc_def)

text \<open>
  C3 as stated: a 200 reply whose body fails JSON parsing ends the call at once. A body of
  100000 nested lists makes \<open>json.loads\<close> raise \<open>RecursionError\<close>, which only the outer
  handler catches: the call pauses, sends a second request and returns its result.
\<close>

theorem C3_counterexample:
  "reply_deep_then_ok 0 = Inr \<lparr>status_code = 200, body_text = deep_body\<rparr>
   \<and> sample_loads (py_strip deep_body) = Inl RecursionError
   \<and> analyze_image_veolia sample_loads (sample_analysis_env reply_deep_then_ok) ''a.jpg''
        ''water?'' fresh_manager ''me@x'' ''https://api/analyze'' 3
      = (JArr [JNum 1], after_abc 1000 61 ''id'' ''secret'',
         [ReadFile ''a.jpg'', token_request fresh_manager,
          sample_post, Sleep (3 / 2), sample_post])"
proof -
  have att: "analysis_attempts sample_loads reply_deep_then_ok half_jitter ''https://api/analyze''
         (analysis_headers ''abc'') (analysis_payload ''me@x'' ''water?'' ''QUJD'') 0 3
     = (JArr [JNum 1], [sample_post, Sleep (3 / 2), sample_post])"
  proof -
    have one: "sample_loads (py_strip ''[1]'') = Inr (JArr [JNum 1])"
      by (simp add: sample_loads_short py_strip_def is_space_def)
    show ?thesis
      by (simp add: numeral_3_eq_3 reply_deep_then_ok_def sample_loads_deep one half_jitter_def
            sample_post_def)
  qed
  have img: "image_b64 (sample_analysis_env reply_deep_then_ok) = Inr ''QUJD''"
    by (simp add: sample_analysis_env_def)
  have "analyze_image_veolia sample_loads (sample_analysis_env reply_deep_then_ok) ''a.jpg''
        ''water?'' fresh_manager ''me@x'' ''https://api/analyze'' 3
      = (JArr [JNum 1], after_abc 1000 61 ''id'' ''secret'',
         [ReadFile ''a.jpg'', token_request fresh_manager,
          sample_post, Sleep (3 / 2), sample_post])"
    using analyze_with_token [OF img sample_token, of sample_loads "''a.jpg''" "''water?''"
        "''me@x''" "''https://api/analyze''" 3] att
    by (simp add: sample_analysis_env_def)
  then show ?thesis
    by (simp add: reply_deep_then_ok_def sample_loads_deep)
qed

text \<open>
  C3, amended: in a call that has an image and a token, if the attempts before index \<open>k\<close>
  were all retried (exception of the request, status other than 200, or an exception of
  \<open>json.loads\<close> other than \<open>JSONDecodeError\<close>) and attempt \<open>k\<close> gets status 200 with a body
  on which \<open>json.loads\<close> raises \<open>JSONDecodeError\<close>, the call returns \<open>None\<close> at once:
  attempt \<open>k\<close> is the last effect, \<open>k + 1\<close> requests were sent. If all \<open>retries\<close> attempts
  were retried, the call returns \<open>None\<close> after exactly \<open>retries\<close> requests, each followed by
  its pause.
\<close>

theorem C3_malformed_body_not_retried:
  assumes img: "image_b64 env = Inr b64"
    and tok: "get_token (token_time env) (token_reply env) tm = (Some tok, tm', ttr)" "tok \<noteq> []"
    and fails: "\<forall>j<k. failed loads (api_reply env j)"
  shows "(k < nat retries \<and> api_reply env k = Inr resp \<and> status_code resp = 200
            \<and> loads (py_strip (body_text resp)) = Inl JSONDecodeError \<longrightarrow>
          analyze_image_veolia loads env path prompt tm email url retries =
            (JNull, tm',
             ReadFile path # ttr @
               backoff_trace (HttpPost url (analysis_headers tok)
                   (JsonBody (analysis_payload email prompt b64))) (jitter env) 0 k @
               [HttpPost url (analysis_headers tok)
                  (JsonBody (analysis_payload email prompt b64))])
          \<and> api_posts (snd (snd (analyze_image_veolia loads env path prompt tm email url retries)))
              = Suc k)
       \<and> (k = nat retries \<longrightarrow>
          analyze_image_veolia loads env path prompt tm email url retries =
            (JNull, tm',
             ReadFile path # ttr @
               backoff_trace (HttpPost url (analysis_headers tok)
                   (JsonBody (analysis_payload email prompt b64))) (jitter env) 0 k)
          \<and> api_posts (snd (snd (analyze_image_veolia loads env path prompt tm email url retries)))
              = nat retries)"
proof -
  let ?req = "HttpPost url (analysis_headers tok) (JsonBody (analysis_payload email prompt b64))"
  let ?att = "analysis_attempts loads (api_reply env) (jitter env) url (analysis_headers tok)
                (analysis_payload email prompt b64)"
  have pre: "?att 0 (k + n) = (fst (?att k n), backoff_trace ?req (jitter env) 0 k @ snd (?att k n))"
    for n
    using analysis_attempts_failed_prefix [where k = k and reply = "api_reply env" and a = 0
        and loads = loads and jit = "jitter env" and url = url and h = "analysis_headers tok"
        and p = "analysis_payload email prompt b64" and n = n] fails
    by simp
  have posts: "api_posts (ReadFile path # ttr @ tr) = api_posts tr" for tr
    by (rule api_posts_token_trace [OF tok(1)])
  have bk: "api_posts (backoff_trace ?req (jitter env) 0 k @ tr) = k + api_posts tr" for tr
    using api_posts_backoff [of url "analysis_headers tok" "analysis_payload email prompt b64"
        "jitter env" 0 k]
    by (simp add: api_posts_def)
  have one: "api_posts [?req] = 1"
    by (simp add: api_posts_def is_api_post_def)
  have a: "analyze_image_veolia loads env path prompt tm email url retries =
            (JNull, tm', ReadFile path # ttr @ backoff_trace ?req (jitter env) 0 k @ [?req])"
    if "k < nat retries" "api_reply env k = Inr resp" "status_code resp = 200"
       "loads (py_strip (body_text resp)) = Inl JSONDecodeError"
  proof -
    from that(1) obtain n where n: "nat retries = k + Suc n"
      by (auto dest: less_imp_Suc_add)
    have "?att k (Suc n) = (JNull, [?req])"
      using that by simp
    with pre [of "Suc n"] have "?att 0 (nat retries) = (JNull, backoff_trace ?req (jitter env) 0 k @ [?req])"
      by (simp add: n)
    with analyze_with_token [OF img tok, of loads path prompt email url retries]
    show ?thesis by simp
  qed
  have b: "analyze_image_veolia loads env path prompt tm email url retries =
            (JNull, tm', ReadFile path # ttr @ backoff_trace ?req (jitter env) 0 k)"
    if "k = nat retries"
  proof -
    from pre [of 0] that have "?att 0 (nat retries) = (JNull, backoff_trace ?req (jitter env) 0 k)"
      by simp
    with analyze_with_token [OF img tok, of loads path prompt email url retries]
    show ?thesis by simp
  qed
  show ?thesis
  proof (intro conjI impI)
    assume h: "k < nat retries \<and> api_reply env k = Inr resp \<and> status_code resp = 200
            \<and> loads (py_strip (body_text resp)) = Inl JSONDecodeError"
    from h show "analyze_image_veolia loads env path prompt tm email url retries =
            (JNull, tm', ReadFile path # ttr @ backoff_trace ?req (jitter env) 0 k @ [?req])"
      by (intro a) simp_all
    then show "api_posts (snd (snd (analyze_image_veolia loads env path prompt tm email url retries)))
              = Suc k"
      by (simp only: snd_conv posts bk one)
  next
    assume h: "k = nat retries"
    then show "analyze_image_veolia loads env path prompt tm email url retries =
            (JNull, tm', ReadFile path # ttr @ backoff_trace ?req (jitter env) 0 k)"
      by (rule b)
    then show "api_posts (snd (snd (analyze_image_veolia loads env path prompt tm email url retries)))
              = nat retries"
      using posts [of "backoff_trace ?req (jitter env) 0 k"] bk [of "[]"] h
      by (simp add: api_posts_def)
  qed
qed

theorem C3_witness:
  "failed sample_loads (reply_500_then_html 0)
   \<and> (1::nat) < nat 3
   \<and> reply_500_then_html 1 = Inr \<lparr>status_code = 200, body_text = ''<html>''\<rparr>
   \<and> sample_loads (py_strip ''<html>'') = Inl JSONDecodeError
   \<and> analyze_image_veolia sample_loads (sample_analysis_env reply_500_then_html) ''a.jpg''
        ''water?'' fresh_manager ''me@x'' ''https://api/analyze'' 3
      = (JNull, after_abc 1000 61 ''id'' ''secret'',
         [ReadFile ''a.jpg'', token_request fresh_manager,
          sample_post, Sleep (3 / 2), sample_post])
   \<and> failed sample_loads (reply_always_500 0) \<and> failed sample_loads (reply_always_500 1)
   \<and> failed sample_loads (reply_always_500 2)
   \<and> analyze_image_veolia sample_loads (sample_analysis_env reply_always_500) ''a.jpg''
        ''water?'' fresh_manager ''me@x'' ''https://api/analyze'' 3
      = (JNull, after_abc 1000 61 ''id'' ''secret'',
         [ReadFile ''a.jpg'', token_request fresh_manager,
          sample_post, Sleep (3 / 2), sample_post, Sleep (5 / 2), sample_post, Sleep (9 / 2)])"
proof -
  have img: "image_b64 (sample_analysis_env r) = Inr ''QUJD''" for r
    by (simp add: sample_analysis_env_def)
  have f1: "\<forall>j<1. failed sample_loads (api_reply (sample_analysis_env reply_500_then_html) j)"
    by (simp add: sample_analysis_env_def reply_500_then_html_def failed_def)
  have f3: "\<forall>j<3. failed sample_loads (api_reply (sample_analysis_env reply_always_500) j)"
    by (simp add: sample_analysis_env_def reply_always_500_def failed_def)
  have strip: "py_strip ''<html>'' = ''<html>''"
    by (simp add: py_strip_def is_space_def)
  have html: "sample_loads ''<html>'' = Inl JSONDecodeError"
    by (simp add: sample_loads_short)
  have jit: "jitter (sample_analysis_env r) = half_jitter" for r
    by (simp add: sample_analysis_env_def)
  have bt3: "backoff_trace q half_jitter 0 3 = [q, Sleep (3 / 2), q, Sleep (5 / 2), q, Sleep (9 / 2)]" for q
    by (simp add: half_jitter_def numeral_3_eq_3)
  have bt1: "backoff_trace q half_jitter 0 1 = [q, Sleep (3 / 2)]" for q
    by (simp add: half_jitter_def)
  show ?thesis
    using C3_malformed_body_not_retried [OF img sample_token _ f1,
        where retries = 3 and resp = "\<lparr>status_code = 200, body_text = ''<html>''\<rparr>"
          and path = "''a.jpg''" and prompt = "''water?''" and email = "''me@x''"
          and url = "''https://api/analyze''"]
      C3_malformed_body_not_retried [OF img sample_token _ f3,
        where retries = 3 and resp = "\<lparr>status_code = 200, body_text = ''<html>''\<rparr>"
          and path = "''a.jpg''" and prompt = "''water?''" and email = "''me@x''"
          and url = "''https://api/analyze''"]
    by (simp add: strip html jit bt3 bt1 half_jitter_def sample_post_def failed_def
          reply_500_then_html_def reply_always_500_def sample_analysis_env_def)
qed
text \<open>
  C5 as stated: the pause before attempt \<open>k\<close> lies in \<open>[2^k, 2^k + 1)\<close>. With status 500 in
  attempt 0 and a jitter of one half, the only pause before attempt 1 is 1.5 seconds, below
  \<open>2^1\<close>; nothing is waited before attempt 0.
\<close>

theorem C5_counterexample:
  "snd (analysis_attempts sample_loads reply_500_then_ok half_jitter ''https://api/analyze''
         (analysis_headers ''abc'') (analysis_payload ''me@x'' ''water?'' ''QUJD'') 0 3)
     = [sample_post, Sleep (3 / 2), sample_post]
   \<and> \<not> (2 ^ 1 \<le> (3 / 2 :: real))"
  by (simp add: numeral_3_eq_3 reply_500_then_ok_def half_jitter_def sample_post_def
        sample_loads_short py_strip_def is_space_def)

text \<open>
  C5, amended: the pause follows the failed attempt. When attempts \<open>0..k\<close> fail and
  \<open>k < retries\<close>, the request of attempt \<open>k\<close> is effect \<open>2k\<close> of the loop and effect
  \<open>2k + 1\<close> is a pause of \<open>2^k + jitter k\<close> seconds, which lies in \<open>[2^k, 2^k + 1)\<close> when
  the jitter lies in \<open>[0, 1)\<close>; it precedes attempt \<open>k + 1\<close>, or the return when attempt
  \<open>k\<close> was the last.
\<close>

theorem C5_backoff_after_failed_attempt:
  assumes fails: "\<forall>j\<le>k. failed loads (reply j)" and kn: "k < n"
  shows "snd (analysis_attempts loads reply jit url h p 0 n) ! (2 * k) = HttpPost url h (JsonBody p)
       \<and> snd (analysis_attempts loads reply jit url h p 0 n) ! (2 * k + 1) = Sleep (2 ^ k + jit k)
       \<and> take (2 * Suc k) (snd (analysis_attempts loads reply jit url h p 0 n))
           = backoff_trace (HttpPost url h (JsonBody p)) jit 0 (Suc k)
       \<and> (0 \<le> jit k \<and> jit k < 1 \<longrightarrow> 2 ^ k \<le> 2 ^ k + jit k \<and> 2 ^ k + jit k < 2 ^ k + 1)"
proof -
  let ?req = "HttpPost url h (JsonBody p)"
  let ?bt = "backoff_trace ?req jit 0 (Suc k)"
  from kn obtain m where m: "n = Suc k + m"
    by (auto dest: less_imp_Suc_add)
  have "\<And>j. j < Suc k \<Longrightarrow> failed loads (reply (0 + j))"
    using fails by simp
  with analysis_attempts_failed_prefix [where k = "Suc k" and reply = reply and a = 0
      and loads = loads and jit = jit and url = url and h = h and p = p and n = m]
  have tr: "snd (analysis_attempts loads reply jit url h p 0 n)
              = ?bt @ snd (analysis_attempts loads reply jit url h p (Suc k) m)"
    by (simp only: m snd_conv add_0)
  have len: "length ?bt = 2 * Suc k"
    by (rule length_backoff)
  have nth: "?bt ! (2 * k) = ?req \<and> ?bt ! (2 * k + 1) = Sleep (2 ^ (0 + k) + jit (0 + k))"
    by (rule backoff_nth) simp
  have a: "snd (analysis_attempts loads reply jit url h p 0 n) ! (2 * k) = ?req"
    using nth len by (simp only: tr nth_append) simp
  have b: "snd (analysis_attempts loads reply jit url h p 0 n) ! (2 * k + 1) = Sleep (2 ^ k + jit k)"
    using nth len by (simp only: tr nth_append) simp
  have c: "take (2 * Suc k) (snd (analysis_attempts loads reply jit url h p 0 n)) = ?bt"
    using len by (simp only: tr take_append) simp
  show ?thesis using a b c by simp
qed

theorem C5_witness:
  "failed sample_loads (reply_always_500 0) \<and> failed sample_loads (reply_always_500 1) \<and> failed sample_loads (reply_always_500 2)
   \<and> (2::nat) < 3
   \<and> snd (analysis_attempts sample_loads reply_always_500 half_jitter ''u'' [] JNull 0 3) ! 4
       = HttpPost ''u'' [] (JsonBody JNull)
   \<and> snd (analysis_attempts sample_loads reply_always_500 half_jitter ''u'' [] JNull 0 3) ! 5
       = Sleep (9 / 2)
   \<and> (0::real) \<le> half_jitter 2 \<and> half_jitter 2 < 1
   \<and> (2::real) ^ 2 \<le> 9 / 2 \<and> (9 / 2 :: real) < 2 ^ 2 + 1"
proof -
  have f: "\<forall>j\<le>2. failed sample_loads (reply_always_500 j)"
    by (simp add: reply_always_500_def failed_def)
  have kn: "(2::nat) < 3" by simp
  have ff: "failed sample_loads (reply_always_500 j)" for j
    by (simp add: reply_always_500_def failed_def)
  show ?thesis
    using C5_backoff_after_failed_attempt [OF f kn, where jit = half_jitter and url = "''u''" and h = "[]" and p = JNull] ff
    by (simp add: half_jitter_def)
qed

text \<open>
  C9: a call that has an image and obtains a token calls \<open>get_token\<close> once, before the loop:
  the manager afterwards is the one that call left, its requests (at most one) come first, and
  every effect after them is a pause or the request with the header built from that token,
  whatever the clock and the expiry are by then.
\<close>

theorem C9_token_fetched_once:
  assumes img: "image_b64 env = Inr b64"
    and tok: "get_token (token_time env) (token_reply env) tm = (Some tok, tm', ttr)" "tok \<noteq> []"
  shows "fst (snd (analyze_image_veolia loads env path prompt tm email url retries)) = tm'
       \<and> snd (snd (analyze_image_veolia loads env path prompt tm email url retries))
           = ReadFile path # ttr @
               snd (analysis_attempts loads (api_reply env) (jitter env) url (analysis_headers tok)
                      (analysis_payload email prompt b64) 0 (nat retries))
       \<and> set (snd (analysis_attempts loads (api_reply env) (jitter env) url (analysis_headers tok)
                      (analysis_payload email prompt b64) 0 (nat retries)))
           \<subseteq> insert (HttpPost url (analysis_headers tok)
                        (JsonBody (analysis_payload email prompt b64))) (range Sleep)
       \<and> (ttr = [] \<or> ttr = [token_request tm])"
  using analyze_with_token [OF img tok, of loads path prompt email url retries]
    analysis_attempts_events [of loads "api_reply env" "jitter env" url "analysis_headers tok"
      "analysis_payload email prompt b64" 0 "nat retries"]
    get_token_trace [OF tok(1)]
  by (simp del: analysis_attempts.simps)

theorem C9_witness:
  "image_b64 (sample_analysis_env reply_500_then_ok) = Inr ''QUJD''
   \<and> get_token (token_time (sample_analysis_env reply_500_then_ok))
        (token_reply (sample_analysis_env reply_500_then_ok)) fresh_manager
      = (Some ''abc'', after_abc 1000 61 ''id'' ''secret'', [token_request fresh_manager])
   \<and> analyze_image_veolia sample_loads (sample_analysis_env reply_500_then_ok) ''a.jpg''
        ''water?'' fresh_manager ''me@x'' ''https://api/analyze'' 3
      = (JArr [JNum 1], after_abc 1000 61 ''id'' ''secret'',
         [ReadFile ''a.jpg'', token_request fresh_manager,
          sample_post, Sleep (3 / 2), sample_post])
   \<and> \<not> (1000 + 3 / 2 < expiry (after_abc 1000 61 ''id'' ''secret'') - 60)"
proof -
  have img: "image_b64 (sample_analysis_env reply_500_then_ok) = Inr ''QUJD''"
    by (simp add: sample_analysis_env_def)
  have tok: "get_token (token_time (sample_analysis_env reply_500_then_ok))
        (token_reply (sample_analysis_env reply_500_then_ok)) fresh_manager
      = (Some ''abc'', after_abc 1000 61 ''id'' ''secret'', [token_request fresh_manager])"
    by (rule sample_token)
  have att: "analysis_attempts sample_loads reply_500_then_ok half_jitter ''https://api/analyze''
         (analysis_headers ''abc'') (analysis_payload ''me@x'' ''water?'' ''QUJD'') 0 3
     = (JArr [JNum 1], [sample_post, Sleep (3 / 2), sample_post])"
    by (simp add: numeral_3_eq_3 reply_500_then_ok_def half_jitter_def sample_post_def
          sample_loads_short py_strip_def is_space_def)
  have res: "fst (analyze_image_veolia sample_loads (sample_analysis_env reply_500_then_ok)
        ''a.jpg'' ''water?'' fresh_manager ''me@x'' ''https://api/analyze'' 3) = JArr [JNum 1]"
    using analyze_with_token [OF img tok, of sample_loads "''a.jpg''" "''water?''" "''me@x''"
        "''https://api/analyze''" 3] att
    by (simp add: sample_analysis_env_def)
  have ex: "expiry (after_abc 1000 61 ''id'' ''secret'') = 1061"
    by (simp add: after_abc_def get_token_fresh)
  have "analyze_image_veolia sample_loads (sample_analysis_env reply_500_then_ok) ''a.jpg''
        ''water?'' fresh_manager ''me@x'' ''https://api/analyze'' 3
      = (JArr [JNum 1], after_abc 1000 61 ''id'' ''secret'',
         [ReadFile ''a.jpg'', token_request fresh_manager,
          sample_post, Sleep (3 / 2), sample_post])"
    using C9_token_fetched_once [OF img tok, of sample_loads "''a.jpg''" "''water?''" "''me@x''"
        "''https://api/analyze''" 3] att res
    by (simp add: sample_analysis_env_def prod_eq_iff)
  then show ?thesis using img tok ex by simp
qed

section \<open>The capture sources\<close>

lemma count_reads_simps:
  "count_reads [] = 0"
  "count_reads (CameraRead i # tr) = Suc (count_reads tr)"
  "count_reads (Sleep d # tr) = count_reads tr"
  "count_reads (MakeDirs p # tr) = count_reads tr"
  "count_reads (WriteFile p # tr) = count_reads tr"
  "count_reads (tr @ tr') = count_reads tr + count_reads tr'"
  by (simp_all add: count_reads_def)

lemma count_gets_simps:
  "count_gets [] = 0"
  "count_gets (HttpGet u # tr) = Suc (count_gets tr)"
  "count_gets (Sleep d # tr) = count_gets tr"
  "count_gets (MakeDirs p # tr) = count_gets tr"
  "count_gets (WriteFile p # tr) = count_gets tr"
  "count_gets (tr @ tr') = count_gets tr + count_gets tr'"
  by (simp_all add: count_gets_def)

lemma local_attempts_failed_prefix:
  "(\<And>j. j < k \<Longrightarrow> \<not> frame env (a + j)) \<Longrightarrow>
   \<exists>T. count_reads T = k \<and>
       local_attempts env d pre idx a (k + n) =
         (fst (local_attempts env d pre idx (a + k) n),
          T @ snd (local_attempts env d pre idx (a + k) n))"
proof (induction k arbitrary: a)
  case 0
  have "count_reads [] = 0 \<and>
       local_attempts env d pre idx a (0 + n) =
         (fst (local_attempts env d pre idx (a + 0) n),
          [] @ snd (local_attempts env d pre idx (a + 0) n))"
    by (simp add: count_reads_simps)
  then show ?case by blast
next
  case (Suc k)
  have f0: "\<not> frame env a" using Suc.prems [of 0] by simp
  have "\<And>j. j < k \<Longrightarrow> \<not> frame env (Suc a + j)" using Suc.prems [of "Suc j" for j] by simp
  from Suc.IH [OF this] obtain T where T: "count_reads T = k"
    "local_attempts env d pre idx (Suc a) (k + n) =
         (fst (local_attempts env d pre idx (Suc a + k) n),
          T @ snd (local_attempts env d pre idx (Suc a + k) n))"
    by blast
  have "count_reads (CameraRead idx # Sleep 1 # T) = Suc k \<and>
       local_attempts env d pre idx a (Suc k + n) =
         (fst (local_attempts env d pre idx (a + Suc k) n),
          (CameraRead idx # Sleep 1 # T) @ snd (local_attempts env d pre idx (a + Suc k) n))"
    using f0 T by (simp add: count_reads_simps)
  then show ?case by blast
qed

lemma reolink_attempts_failed_prefix:
  "(\<And>j. j < k \<Longrightarrow> snapshot_failed env (a + j)) \<Longrightarrow>
   \<exists>T. count_gets T = k \<and>
       reolink_attempts env url fp a (k + n) =
         (fst (reolink_attempts env url fp (a + k) n),
          T @ snd (reolink_attempts env url fp (a + k) n))"
proof (induction k arbitrary: a)
  case 0
  have "count_gets [] = 0 \<and>
       reolink_attempts env url fp a (0 + n) =
         (fst (reolink_attempts env url fp (a + 0) n),
          [] @ snd (reolink_attempts env url fp (a + 0) n))"
    by (simp add: count_gets_simps)
  then show ?case by blast
next
  case (Suc k)
  have f0: "snapshot_failed env a" using Suc.prems [of 0] by simp
  have "\<And>j. j < k \<Longrightarrow> snapshot_failed env (Suc a + j)"
    using Suc.prems [of "Suc j" for j] by simp
  from Suc.IH [OF this] obtain T where T: "count_gets T = k"
    "reolink_attempts env url fp (Suc a) (k + n) =
         (fst (reolink_attempts env url fp (Suc a + k) n),
          T @ snd (reolink_attempts env url fp (Suc a + k) n))"
    by blast
  let ?W = "case snapshot env a of Inl e \<Rightarrow> []
            | Inr resp \<Rightarrow> if status_code resp = 200 then [WriteFile fp] else []"
  have "count_gets (HttpGet url # ?W @ Sleep 1 # T) = Suc k \<and>
       reolink_attempts env url fp a (Suc k + n) =
         (fst (reolink_attempts env url fp (a + Suc k) n),
          (HttpGet url # ?W @ Sleep 1 # T) @ snd (reolink_attempts env url fp (a + Suc k) n))"
    using f0 T
    by (auto simp: count_gets_simps snapshot_failed_def split: sum.splits option.splits)
  then show ?case by blast
qed

lemma reolink_attempts_paths:
  "set (written_paths (snd (reolink_attempts env url fp a n))) \<subseteq> {fp}
   \<and> (fst (reolink_attempts env url fp a n) = None
        \<or> fst (reolink_attempts env url fp a n) = Some fp)"
proof (induction n arbitrary: a)
  case 0
  show ?case by (simp add: written_paths_def)
next
  case (Suc n)
  obtain r tr where eq: "reolink_attempts env url fp (Suc a) n = (r, tr)"
    by (cases "reolink_attempts env url fp (Suc a) n")
  with Suc.IH [of "Suc a"] have "set (written_paths tr) \<subseteq> {fp} \<and> (r = None \<or> r = Some fp)"
    by simp
  with eq show ?case
    by (auto simp: written_paths_def split: sum.splits option.splits)
qed

lemma local_all_fail:
  assumes "\<forall>j<nat retries. \<not> frame env j"
  shows "fst (local_attempts env d pre idx 0 (nat retries)) = None
       \<and> count_reads (snd (local_attempts env d pre idx 0 (nat retries))) = nat retries"
proof -
  have "\<And>j. j < nat retries \<Longrightarrow> \<not> frame env (0 + j)" using assms by simp
  from local_attempts_failed_prefix
    [where k = "nat retries" and a = 0 and env = env and n = 0 and d = d and pre = pre
       and idx = idx, OF this]
  show ?thesis by (auto simp: count_reads_simps)
qed

lemma local_first_success:
  assumes "\<forall>j<k. \<not> frame env j" and "frame env k" and "k < nat retries"
  shows "fst (local_attempts env d pre idx 0 (nat retries))
           = Some (path_join d (pre @ ''_'' @ strftime env k @ ''.jpg''))
       \<and> count_reads (snd (local_attempts env d pre idx 0 (nat retries))) = Suc k
       \<and> last (snd (local_attempts env d pre idx 0 (nat retries)))
           = WriteFile (path_join d (pre @ ''_'' @ strftime env k @ ''.jpg''))"
proof -
  from assms(3) obtain n where n: "nat retries = k + Suc n"
    by (auto dest: less_imp_Suc_add)
  have "\<And>j. j < k \<Longrightarrow> \<not> frame env (0 + j)" using assms(1) by simp
  from local_attempts_failed_prefix
    [where k = k and a = 0 and env = env and n = "Suc n" and d = d and pre = pre
       and idx = idx, OF this]
  obtain T where T: "count_reads T = k"
    "local_attempts env d pre idx 0 (k + Suc n) =
       (fst (local_attempts env d pre idx k (Suc n)), T @ snd (local_attempts env d pre idx k (Suc n)))"
    by auto
  have "local_attempts env d pre idx k (Suc n) =
      (Some (path_join d (pre @ ''_'' @ strftime env k @ ''.jpg'')),
       [CameraRead idx, WriteFile (path_join d (pre @ ''_'' @ strftime env k @ ''.jpg''))])"
    using assms(2) by simp
  with T show ?thesis
    by (simp only: n fst_conv snd_conv count_reads_simps last_appendR) (simp add: count_reads_simps)
qed

lemma reolink_all_fail:
  assumes "\<forall>j<nat retries. snapshot_failed env j"
  shows "fst (reolink_attempts env url fp 0 (nat retries)) = None
       \<and> count_gets (snd (reolink_attempts env url fp 0 (nat retries))) = nat retries"
proof -
  have "\<And>j. j < nat retries \<Longrightarrow> snapshot_failed env (0 + j)" using assms by simp
  from reolink_attempts_failed_prefix
    [where k = "nat retries" and a = 0 and env = env and n = 0 and url = url and fp = fp, OF this]
  show ?thesis by (auto simp: count_gets_simps)
qed

lemma reolink_first_success:
  assumes "\<forall>j<k. snapshot_failed env j" and "\<not> snapshot_failed env k" and "k < nat retries"
  shows "fst (reolink_attempts env url fp 0 (nat retries)) = Some fp
       \<and> count_gets (snd (reolink_attempts env url fp 0 (nat retries))) = Suc k
       \<and> last (snd (reolink_attempts env url fp 0 (nat retries))) = WriteFile fp"
proof -
  from assms(3) obtain n where n: "nat retries = k + Suc n"
    by (auto dest: less_imp_Suc_add)
  have "\<And>j. j < k \<Longrightarrow> snapshot_failed env (0 + j)" using assms(1) by simp
  from reolink_attempts_failed_prefix
    [where k = k and a = 0 and env = env and n = "Suc n" and url = url and fp = fp, OF this]
  obtain T where T: "count_gets T = k"
    "reolink_attempts env url fp 0 (k + Suc n) =
       (fst (reolink_attempts env url fp k (Suc n)), T @ snd (reolink_attempts env url fp k (Suc n)))"
    by auto
  have "reolink_attempts env url fp k (Suc n) = (Some fp, [HttpGet url, WriteFile fp])"
    using assms(2) by (auto simp: snapshot_failed_def split: sum.splits option.splits)
  with T show ?thesis
    by (simp only: n fst_conv snd_conv count_gets_simps last_appendR) (simp add: count_gets_simps)
qed

lemma last_after_makedirs:
  "count_reads tr = Suc k \<or> count_gets tr = Suc k \<Longrightarrow> last (MakeDirs p # tr) = last tr"
  by (cases tr) (auto simp: count_reads_def count_gets_def)

text \<open>
  C7: with the image directory in place, a local capture whose every read fails performs
  exactly \<open>retries\<close> reads and returns \<open>None\<close>; when read \<open>k\<close> is the first to deliver a
  frame, it returns the path it wrote after \<open>k + 1\<close> reads, the write being its last effect.
  The same holds for the network capture with a complete camera configuration, counting
  requests. Both functions declare \<open>retries=3\<close>.
\<close>

theorem C7_capture_retries:
  assumes mk: "makedirs_error env = None"
  shows
  "((\<forall>j<nat retries. \<not> frame env j) \<longrightarrow>
       fst (capture_image_local env d pre idx retries) = Inr None
       \<and> count_reads (snd (capture_image_local env d pre idx retries)) = nat retries)
   \<and> ((\<forall>j<k. \<not> frame env j) \<and> frame env k \<and> k < nat retries \<longrightarrow>
       fst (capture_image_local env d pre idx retries)
         = Inr (Some (path_join d (pre @ ''_'' @ strftime env k @ ''.jpg'')))
       \<and> count_reads (snd (capture_image_local env d pre idx retries)) = Suc k
       \<and> last (snd (capture_image_local env d pre idx retries))
           = WriteFile (path_join d (pre @ ''_'' @ strftime env k @ ''.jpg'')))
   \<and> (truthy_str (cam_ip cfg) \<and> truthy_str (cam_user cfg) \<and> truthy_str (cam_password cfg) \<longrightarrow>
        ((\<forall>j<nat retries. snapshot_failed env j) \<longrightarrow>
           fst (capture_image_reolink env cfg pre retries) = Inr None
           \<and> count_gets (snd (capture_image_reolink env cfg pre retries)) = nat retries)
      \<and> ((\<forall>j<k. snapshot_failed env j) \<and> \<not> snapshot_failed env k \<and> k < nat retries \<longrightarrow>
           fst (capture_image_reolink env cfg pre retries)
             = Inr (Some (reolink_filepath env cfg pre))
           \<and> count_gets (snd (capture_image_reolink env cfg pre retries)) = Suc k
           \<and> last (snd (capture_image_reolink env cfg pre retries))
               = WriteFile (reolink_filepath env cfg pre)))
   \<and> default_retries = 3"
proof -
  have loc: "capture_image_local env d pre idx retries =
      (Inr (fst (local_attempts env d pre idx 0 (nat retries))),
       MakeDirs d # snd (local_attempts env d pre idx 0 (nat retries)))"
    using mk by (simp add: capture_image_local_def split: prod.splits)
  have a: "fst (capture_image_local env d pre idx retries) = Inr None
       \<and> count_reads (snd (capture_image_local env d pre idx retries)) = nat retries"
    if "\<forall>j<nat retries. \<not> frame env j"
    using local_all_fail [OF that, of d pre idx]
    by (simp add: loc count_reads_simps)
  have b: "fst (capture_image_local env d pre idx retries)
         = Inr (Some (path_join d (pre @ ''_'' @ strftime env k @ ''.jpg'')))
       \<and> count_reads (snd (capture_image_local env d pre idx retries)) = Suc k
       \<and> last (snd (capture_image_local env d pre idx retries))
           = WriteFile (path_join d (pre @ ''_'' @ strftime env k @ ''.jpg''))"
    if "\<forall>j<k. \<not> frame env j" "frame env k" "k < nat retries"
    using local_first_success [OF that, of d pre idx]
      last_after_makedirs [of "snd (local_attempts env d pre idx 0 (nat retries))" k d]
    by (simp add: loc count_reads_simps)
  let ?url = "snapshot_url (case cam_ip cfg of Some ip \<Rightarrow> ip | None \<Rightarrow> [])
                (random_str env)
                (case cam_user cfg of Some u \<Rightarrow> u | None \<Rightarrow> [])
                (case cam_password cfg of Some pw \<Rightarrow> pw | None \<Rightarrow> [])"
  let ?fp = "reolink_filepath env cfg pre"
  have reo: "capture_image_reolink env cfg pre retries =
      (Inr (fst (reolink_attempts env ?url ?fp 0 (nat retries))),
       MakeDirs (reolink_image_dir cfg) # snd (reolink_attempts env ?url ?fp 0 (nat retries)))"
    if "truthy_str (cam_ip cfg) \<and> truthy_str (cam_user cfg) \<and> truthy_str (cam_password cfg)"
    using mk that by (simp add: capture_image_reolink_def split: prod.splits)
  have c: "fst (capture_image_reolink env cfg pre retries) = Inr None
           \<and> count_gets (snd (capture_image_reolink env cfg pre retries)) = nat retries"
    if "truthy_str (cam_ip cfg) \<and> truthy_str (cam_user cfg) \<and> truthy_str (cam_password cfg)"
       "\<forall>j<nat retries. snapshot_failed env j"
    using reolink_all_fail [OF that(2), of ?url ?fp]
    by (simp add: reo [OF that(1)] count_gets_simps)
  have e: "fst (capture_image_reolink env cfg pre retries) = Inr (Some ?fp)
           \<and> count_gets (snd (capture_image_reolink env cfg pre retries)) = Suc k
           \<and> last (snd (capture_image_reolink env cfg pre retries)) = WriteFile ?fp"
    if "truthy_str (cam_ip cfg) \<and> truthy_str (cam_user cfg) \<and> truthy_str (cam_password cfg)"
       "\<forall>j<k. snapshot_failed env j" "\<not> snapshot_failed env k" "k < nat retries"
    using reolink_first_success [OF that(2,3,4), of ?url ?fp]
      last_after_makedirs [of "snd (reolink_attempts env ?url ?fp 0 (nat retries))" k
        "reolink_image_dir cfg"]
    by (simp add: reo [OF that(1)] count_gets_simps)
  have f: "default_retries = 3" by (simp add: default_retries_def)
  show ?thesis
    by (intro conjI impI a b c e f) simp_all
qed

text \<open>
  C10: every file the network capture writes, failed attempts included, is written to one
  path, and a returned path is that path; it carries the time stamp read once, before the
  first attempt.
\<close>

theorem C10_reolink_path_fixed:
  "set (written_paths (snd (capture_image_reolink env cfg pre retries)))
     \<subseteq> {reolink_filepath env cfg pre}
   \<and> (fst (capture_image_reolink env cfg pre retries) = Inr None
      \<or> fst (capture_image_reolink env cfg pre retries) = Inr (Some (reolink_filepath env cfg pre))
      \<or> (\<exists>e. makedirs_error env = Some e
             \<and> fst (capture_image_reolink env cfg pre retries) = Inl e))
   \<and> reolink_filepath env cfg pre
       = path_join (reolink_image_dir cfg) (pre @ ''_'' @ strftime env 0 @ ''.jpg'')"
proof -
  let ?url = "snapshot_url (case cam_ip cfg of Some ip \<Rightarrow> ip | None \<Rightarrow> [])
                (random_str env)
                (case cam_user cfg of Some u \<Rightarrow> u | None \<Rightarrow> [])
                (case cam_password cfg of Some pw \<Rightarrow> pw | None \<Rightarrow> [])"
  let ?fp = "reolink_filepath env cfg pre"
  obtain r tr where eq: "reolink_attempts env ?url ?fp 0 (nat retries) = (r, tr)"
    by (cases "reolink_attempts env ?url ?fp 0 (nat retries)")
  with reolink_attempts_paths [of env ?url ?fp 0 "nat retries"]
  have p: "set (written_paths tr) \<subseteq> {?fp}" "r = None \<or> r = Some ?fp"
    by simp_all
  have w: "written_paths (MakeDirs x # tr) = written_paths tr" for x
    by (simp add: written_paths_def)
  show ?thesis
  proof (cases "truthy_str (cam_ip cfg) \<and> truthy_str (cam_user cfg) \<and> truthy_str (cam_password cfg)")
    case False
    then show ?thesis
      by (simp add: capture_image_reolink_def written_paths_def reolink_filepath_def)
  next
    case True
    show ?thesis
    proof (cases "makedirs_error env")
      case (Some e)
      with True show ?thesis
        by (simp add: capture_image_reolink_def written_paths_def reolink_filepath_def)
    next
      case None
      with True eq have "capture_image_reolink env cfg pre retries = (Inr r, MakeDirs (reolink_image_dir cfg) # tr)"
        by (simp add: capture_image_reolink_def)
      with p w show ?thesis
        by (auto simp: reolink_filepath_def)
    qed
  qed
qed


lemma sample_env_facts:
  "makedirs_error (sample_capture_env n) = None"
  "frame (sample_capture_env n) j = (n \<le> j)"
  "snapshot_failed (sample_capture_env n) j = (j < n)"
  "strftime (sample_capture_env n) = sample_stamp"
  by (simp_all add: sample_capture_env_def ok_from_def snapshot_failed_def snap_ok_from_def
        save_fails_before_def)

lemma sample_config_facts:
  "truthy_str (cam_ip sample_reolink_config)"
  "truthy_str (cam_user sample_reolink_config)"
  "truthy_str (cam_password sample_reolink_config)"
  "reolink_filepath (sample_capture_env n) sample_reolink_config ''image''
     = ''imgs/image_20250321-120000.jpg''"
  "reolink_filepath broken_write_env sample_reolink_config ''image''
     = ''imgs/image_20250321-120000.jpg''"
  by (simp_all add: sample_reolink_config_def reolink_filepath_def reolink_image_dir_def
        path_join_def sample_capture_env_def broken_write_env_def sample_stamp_def)

theorem C7_witness:
  "makedirs_error (sample_capture_env 3) = None
   \<and> \<not> frame (sample_capture_env 3) 0 \<and> \<not> frame (sample_capture_env 3) 1
   \<and> \<not> frame (sample_capture_env 3) 2
   \<and> fst (capture_image_local (sample_capture_env 3) ''imgs'' ''image'' 0 3) = Inr None
   \<and> count_reads (snd (capture_image_local (sample_capture_env 3) ''imgs'' ''image'' 0 3)) = 3
   \<and> \<not> frame (sample_capture_env 1) 0 \<and> frame (sample_capture_env 1) 1
   \<and> fst (capture_image_local (sample_capture_env 1) ''imgs'' ''image'' 0 3)
       = Inr (Some ''imgs/image_20250321-120001.jpg'')
   \<and> count_reads (snd (capture_image_local (sample_capture_env 1) ''imgs'' ''image'' 0 3)) = 2
   \<and> snapshot_failed (sample_capture_env 3) 0 \<and> snapshot_failed (sample_capture_env 3) 1
   \<and> snapshot_failed (sample_capture_env 3) 2
   \<and> fst (capture_image_reolink (sample_capture_env 3) sample_reolink_config ''image'' 3)
       = Inr None
   \<and> count_gets (snd (capture_image_reolink (sample_capture_env 3) sample_reolink_config
         ''image'' 3)) = 3
   \<and> snapshot_failed (sample_capture_env 1) 0 \<and> \<not> snapshot_failed (sample_capture_env 1) 1
   \<and> fst (capture_image_reolink (sample_capture_env 1) sample_reolink_config ''image'' 3)
       = Inr (Some ''imgs/image_20250321-120000.jpg'')
   \<and> count_gets (snd (capture_image_reolink (sample_capture_env 1) sample_reolink_config
         ''image'' 3)) = 2"
proof -
  note A = C7_capture_retries [where env = "sample_capture_env 3" and retries = 3
        and d = "''imgs''" and pre = "''image''" and idx = 0 and k = 0
        and cfg = sample_reolink_config, OF sample_env_facts(1)]
  note B = C7_capture_retries [where env = "sample_capture_env 1" and retries = 3
        and d = "''imgs''" and pre = "''image''" and idx = 0 and k = 1
        and cfg = sample_reolink_config, OF sample_env_facts(1)]
  have cfg: "truthy_str (cam_ip sample_reolink_config) \<and> truthy_str (cam_user sample_reolink_config)
      \<and> truthy_str (cam_password sample_reolink_config)"
    by (simp add: sample_config_facts)
  have a1: "fst (capture_image_local (sample_capture_env 3) ''imgs'' ''image'' 0 3) = Inr None
     \<and> count_reads (snd (capture_image_local (sample_capture_env 3) ''imgs'' ''image'' 0 3)) = nat 3"
    by (rule mp [OF conjunct1 [OF A]]) (simp add: sample_env_facts)
  have a2: "fst (capture_image_reolink (sample_capture_env 3) sample_reolink_config ''image'' 3)
       = Inr None
     \<and> count_gets (snd (capture_image_reolink (sample_capture_env 3) sample_reolink_config
         ''image'' 3)) = nat 3"
    by (rule mp [OF conjunct1 [OF mp [OF conjunct1 [OF conjunct2 [OF conjunct2 [OF A]]] cfg]]])
       (simp add: sample_env_facts)
  have b1: "fst (capture_image_local (sample_capture_env 1) ''imgs'' ''image'' 0 3)
         = Inr (Some (path_join ''imgs'' (''image'' @ ''_'' @ strftime (sample_capture_env 1) 1 @ ''.jpg'')))
       \<and> count_reads (snd (capture_image_local (sample_capture_env 1) ''imgs'' ''image'' 0 3)) = Suc 1
       \<and> last (snd (capture_image_local (sample_capture_env 1) ''imgs'' ''image'' 0 3))
           = WriteFile (path_join ''imgs'' (''image'' @ ''_'' @ strftime (sample_capture_env 1) 1 @ ''.jpg''))"
    by (rule mp [OF conjunct1 [OF conjunct2 [OF B]]]) (simp add: sample_env_facts)
  have b2: "fst (capture_image_reolink (sample_capture_env 1) sample_reolink_config ''image'' 3)
             = Inr (Some (reolink_filepath (sample_capture_env 1) sample_reolink_config ''image''))
           \<and> count_gets (snd (capture_image_reolink (sample_capture_env 1) sample_reolink_config ''image'' 3)) = Suc 1
           \<and> last (snd (capture_image_reolink (sample_capture_env 1) sample_reolink_config ''image'' 3))
               = WriteFile (reolink_filepath (sample_capture_env 1) sample_reolink_config ''image'')"
    by (rule mp [OF conjunct2 [OF mp [OF conjunct1 [OF conjunct2 [OF conjunct2 [OF B]]] cfg]]])
       (simp add: sample_env_facts)
  have p: "path_join ''imgs'' (''image'' @ ''_'' @ strftime (sample_capture_env 1) 1 @ ''.jpg'')
             = ''imgs/image_20250321-120001.jpg''"
    by (simp add: path_join_def sample_stamp_def sample_env_facts)
  have e: "\<not> frame (sample_capture_env 3) 0 \<and> \<not> frame (sample_capture_env 3) 1
   \<and> \<not> frame (sample_capture_env 3) 2 \<and> \<not> frame (sample_capture_env 1) 0
   \<and> frame (sample_capture_env 1) 1
   \<and> snapshot_failed (sample_capture_env 3) 0 \<and> snapshot_failed (sample_capture_env 3) 1
   \<and> snapshot_failed (sample_capture_env 3) 2
   \<and> snapshot_failed (sample_capture_env 1) 0 \<and> \<not> snapshot_failed (sample_capture_env 1) 1"
    by (simp add: sample_env_facts)
  show ?thesis
    using a1 a2 b1 b2 e sample_env_facts(1) [of 3]
    by (simp only: p sample_config_facts(4)) simp
qed


theorem C10_example:
  "capture_image_reolink broken_write_env sample_reolink_config ''image'' 3
     = (Inr (Some ''imgs/image_20250321-120000.jpg''),
        [MakeDirs ''imgs'',
         HttpGet ''http://10.0.0.5/cgi-bin/api.cgi?cmd=Snap&channel=0&rs=a1b2c3&user=admin&password=pw'',
         WriteFile ''imgs/image_20250321-120000.jpg'', Sleep 1,
         HttpGet ''http://10.0.0.5/cgi-bin/api.cgi?cmd=Snap&channel=0&rs=a1b2c3&user=admin&password=pw'',
         WriteFile ''imgs/image_20250321-120000.jpg''])
   \<and> strftime broken_write_env 1 = ''20250321-120001''
   \<and> set (written_paths (snd (capture_image_reolink broken_write_env sample_reolink_config
        ''image'' 3))) \<subseteq> {''imgs/image_20250321-120000.jpg''}"
proof -
  have "capture_image_reolink broken_write_env sample_reolink_config ''image'' 3
     = (Inr (Some ''imgs/image_20250321-120000.jpg''),
        [MakeDirs ''imgs'',
         HttpGet ''http://10.0.0.5/cgi-bin/api.cgi?cmd=Snap&channel=0&rs=a1b2c3&user=admin&password=pw'',
         WriteFile ''imgs/image_20250321-120000.jpg'', Sleep 1,
         HttpGet ''http://10.0.0.5/cgi-bin/api.cgi?cmd=Snap&channel=0&rs=a1b2c3&user=admin&password=pw'',
         WriteFile ''imgs/image_20250321-120000.jpg''])"
    by (simp add: capture_image_reolink_def sample_config_facts numeral_3_eq_3
          broken_write_env_def sample_reolink_config_def snapshot_url_def reolink_image_dir_def
          reolink_filepath_def path_join_def sample_stamp_def snap_ok_from_def
          save_fails_before_def)
  moreover have "strftime broken_write_env 1 = ''20250321-120001''"
    by (simp add: broken_write_env_def sample_stamp_def)
  moreover note conjunct1 [OF C10_reolink_path_fixed
      [of broken_write_env sample_reolink_config "''image''" 3], unfolded sample_config_facts(5)]
  ultimately show ?thesis
    by (intro conjI)
qed


section \<open>The retention sweep\<close>





section \<open>The loops\<close>

lemma dataset_iteration_fails:
  "capture_fails L env \<Longrightarrow>
   dataset_iteration L env c =
     (if c + 1 \<ge> MAX_CONSECUTIVE_FAILURES
      then (Exit 1, MakeDirs (daily_dir L env) # snd (dataset_capture L env))
      else (Continue (c + 1),
            MakeDirs (daily_dir L env) # snd (dataset_capture L env) @ [Sleep 10]))"
  by (cases "dataset_capture L env") (auto simp: capture_fails_def dataset_iteration_def)

lemma dataset_iteration_succeeds:
  "duration_check L env = Inr False \<Longrightarrow> e_makedirs_error env = None \<Longrightarrow>
   fst (dataset_capture L env) = Inr (Some p) \<Longrightarrow>
   fst (dataset_iteration L env c) =
     (case interval_sleep L env of Inl e \<Rightarrow> Uncaught e | Inr pause \<Rightarrow> Continue 0)"
  by (cases "dataset_capture L env") (auto simp: dataset_iteration_def split: sum.splits)

lemma config_ok_sleeps: "config_ok L env \<Longrightarrow> \<exists>pause. interval_sleep L env = Inr pause"
  by (auto simp: config_ok_def interval_sleep_def time_sleep_def split: option.splits)

lemma config_ok_check: "config_ok L env \<Longrightarrow> duration_check L env \<noteq> Inl x"
  by (auto simp: config_ok_def duration_check_def split: json.splits option.splits)

lemma dataset_iteration_exit:
  "fst (dataset_iteration L env c) = Exit code \<Longrightarrow>
   code = 1 \<and> capture_fails L env \<and> c + 1 \<ge> MAX_CONSECUTIVE_FAILURES"
  by (cases "dataset_capture L env")
     (auto simp: dataset_iteration_def capture_fails_def
           split: if_splits option.splits sum.splits bool.splits)

lemma dataset_iteration_caught:
  "duration_check L env = Inr False \<Longrightarrow>
   e_makedirs_error env = Some x \<or> fst (dataset_capture L env) = Inl x \<Longrightarrow>
   fst (dataset_iteration L env c) = Continue c
   \<and> last (snd (dataset_iteration L env c)) = Sleep 10"
  by (cases "dataset_capture L env")
     (auto simp: dataset_iteration_def split: option.splits)

lemma dataset_iteration_uncaught:
  "fst (dataset_iteration L env c) = Uncaught x \<Longrightarrow>
   duration_check L env = Inl x
   \<or> (duration_check L env = Inr False \<and> e_makedirs_error env = None
      \<and> (\<exists>p. fst (dataset_capture L env) = Inr (Some p))
      \<and> interval_sleep L env = Inl x)"
  by (cases "dataset_capture L env")
     (auto simp: dataset_iteration_def split: if_splits option.splits sum.splits bool.splits)

lemma dataset_iteration_never_uncaught:
  "config_ok L env \<Longrightarrow> fst (dataset_iteration L env c) \<noteq> Uncaught x"
  using dataset_iteration_uncaught [of L env c x] config_ok_sleeps [of L env]
    config_ok_check [of L env x]
  by auto

lemma dataset_loop_Cons_fst:
  "fst (dataset_loop L (env # envs) c) =
     (case fst (dataset_iteration L env c) of
        Continue c' \<Rightarrow> fst (dataset_loop L envs c')
      | Break \<Rightarrow> Completed
      | Exit code \<Rightarrow> Exited code
      | Uncaught e \<Rightarrow> Crashed e)"
  by (auto split: prod.splits step.splits)

lemma dataset_loop_never_crashes:
  "(\<And>e. e \<in> set envs \<Longrightarrow> config_ok L e) \<Longrightarrow> fst (dataset_loop L envs c) \<noteq> Crashed x"
proof (induction envs arbitrary: c)
  case Nil
  show ?case by simp
next
  case (Cons env envs)
  have ok: "config_ok L env" using Cons.prems by simp
  have rest: "\<And>e. e \<in> set envs \<Longrightarrow> config_ok L e" using Cons.prems by simp
  obtain s tr where it: "dataset_iteration L env c = (s, tr)"
    by (cases "dataset_iteration L env c")
  with dataset_iteration_never_uncaught [OF ok, of c] have nu: "\<And>y. s \<noteq> Uncaught y"
    by simp
  show ?case
  proof (cases s)
    case (Continue c')
    with it Cons.IH [OF rest, of c'] show ?thesis
      by (simp add: dataset_loop_Cons_fst del: dataset_loop.simps)
  next
    case Break
    with it show ?thesis by (simp add: dataset_loop_Cons_fst del: dataset_loop.simps)
  next
    case (Exit code)
    with it show ?thesis by (simp add: dataset_loop_Cons_fst del: dataset_loop.simps)
  next
    case (Uncaught y)
    with nu [of y] show ?thesis by blast
  qed
qed

lemma dataset_loop_failures:
  "(\<And>env. env \<in> set envs \<Longrightarrow> capture_fails L env) \<Longrightarrow> c < MAX_CONSECUTIVE_FAILURES \<Longrightarrow>
   fst (dataset_loop L envs c) =
     (if c + int (length envs) < MAX_CONSECUTIVE_FAILURES
      then Running (c + int (length envs)) else Exited 1)"
proof (induction envs arbitrary: c)
  case Nil
  then show ?case by simp
next
  case (Cons env envs)
  have f: "capture_fails L env" using Cons.prems(1) by simp
  show ?case
  proof (cases "c + 1 \<ge> MAX_CONSECUTIVE_FAILURES")
    case True
    with dataset_iteration_fails [OF f, of c] show ?thesis
      by (simp add: dataset_loop_Cons_fst del: dataset_loop.simps)
  next
    case False
    then have lt: "c + 1 < MAX_CONSECUTIVE_FAILURES" by simp
    have "\<And>e. e \<in> set envs \<Longrightarrow> capture_fails L e" using Cons.prems(1) by simp
    from Cons.IH [OF this lt] False dataset_iteration_fails [OF f, of c]
    show ?thesis by (simp add: dataset_loop_Cons_fst add.assoc del: dataset_loop.simps)
  qed
qed

lemma main_iteration_capture_none:
  "fst (main_capture L env) = Inr None \<Longrightarrow>
   main_loop_iteration loads iglob L env tm = (Exit 1, snd (main_capture L env))"
  by (cases "main_capture L env") (simp add: main_loop_iteration_def)

lemma main_iteration_capture_raises:
  "fst (main_capture L env) = Inl x \<Longrightarrow>
   main_loop_iteration loads iglob L env tm = (Uncaught x, snd (main_capture L env))"
  by (cases "main_capture L env") (simp add: main_loop_iteration_def)

lemma main_iteration_check_raises:
  "fst (main_capture L env) = Inr (Some p) \<Longrightarrow>
   check_water loads
     (fst (analyze_image_veolia loads (m_analysis env) p (m_prompt L) tm (m_user_email L)
             (m_api_base_url L) 3)) = Inl x \<Longrightarrow>
   fst (main_loop_iteration loads iglob L env tm) = Uncaught x"
  by (cases "main_capture L env") (auto simp: main_loop_iteration_def split: prod.splits)

lemma sample_local_capture:
  "capture_image_local (sample_capture_env 3) d ''dataset_image'' 0 default_retries
     = (Inr None, [MakeDirs d, CameraRead 0, Sleep 1, CameraRead 0, Sleep 1, CameraRead 0, Sleep 1])"
  "capture_image_local (sample_capture_env 0) d pre 0 default_retries
     = (Inr (Some (path_join d (pre @ ''_20250321-120000.jpg''))),
        [MakeDirs d, CameraRead 0, WriteFile (path_join d (pre @ ''_20250321-120000.jpg''))])"
  "capture_image_local (sample_capture_env 3) d ''image'' 0 default_retries
     = (Inr None, [MakeDirs d, CameraRead 0, Sleep 1, CameraRead 0, Sleep 1, CameraRead 0, Sleep 1])"
  by (simp_all add: capture_image_local_def default_retries_def numeral_3_eq_3 sample_env_facts
        sample_stamp_def)

lemma sample_pass_fails: "capture_fails sample_dataset_locals (dataset_pass 3)"
  by (simp add: capture_fails_def duration_check_def dataset_capture_def
        sample_dataset_locals_def dataset_pass_def sample_local_capture)

lemma sample_pass_succeeds:
  "duration_check sample_dataset_locals (dataset_pass 0) = Inr False"
  "e_makedirs_error (dataset_pass 0) = None"
  "fst (dataset_capture sample_dataset_locals (dataset_pass 0))
     = Inr (Some ''dataset_images/20250321/dataset_image_20250321-120000.jpg'')"
  "config_ok sample_dataset_locals (dataset_pass n)"
  by (simp_all add: duration_check_def dataset_capture_def daily_dir_def config_ok_def
        sleep_limit_def sample_dataset_locals_def dataset_pass_def sample_local_capture
        path_join_def)

lemma null_interval_pass:
  "duration_check null_interval_locals (dataset_pass 0) = Inr False"
  "e_makedirs_error (dataset_pass 0) = None"
  "fst (dataset_capture null_interval_locals (dataset_pass 0))
     = Inr (Some ''dataset_images/20250321/dataset_image_20250321-120000.jpg'')"
  "interval_sleep null_interval_locals (dataset_pass 0) = Inl TypeError"
  by (simp_all add: duration_check_def dataset_capture_def daily_dir_def interval_sleep_def
        null_interval_locals_def sample_dataset_locals_def dataset_pass_def
        sample_local_capture path_join_def)

lemma sample_main_capture_fails:
  "fst (main_capture sample_main_locals (main_pass 3 r)) = Inr None"
  by (simp add: main_capture_def sample_main_locals_def main_pass_def sample_local_capture)

lemma sample_main_capture_ok:
  "main_capture sample_main_locals (main_pass 0 r)
     = (Inr (Some ''imgs/image_20250321-120000.jpg''),
        [MakeDirs ''imgs'', CameraRead 0, WriteFile ''imgs/image_20250321-120000.jpg''])"
  by (simp add: main_capture_def sample_main_locals_def main_pass_def sample_local_capture
        path_join_def)

lemma sample_analysis_number:
  "fst (analyze_image_veolia sample_loads (sample_analysis_env reply_number)
        ''imgs/image_20250321-120000.jpg'' ''water?'' fresh_manager ''me@x''
        ''https://api/analyze'' 3) = JNum 5"
proof -
  have att: "analysis_attempts sample_loads reply_number half_jitter ''https://api/analyze''
         (analysis_headers ''abc'') (analysis_payload ''me@x'' ''water?'' ''QUJD'') 0 3
     = (JNum 5, [sample_post])"
    by (simp add: numeral_3_eq_3 reply_number_def sample_post_def sample_loads_short
          py_strip_def is_space_def)
  show ?thesis
    using analyze_with_token [OF _ sample_token, of reply_number "''QUJD''" sample_loads
        "''imgs/image_20250321-120000.jpg''" "''water?''" "''me@x''" "''https://api/analyze''" 3] att
    by (simp add: sample_analysis_env_def)
qed

lemma sample_check_number:
  "check_water sample_loads
     (fst (analyze_image_veolia sample_loads (m_analysis (main_pass 0 reply_number))
        ''imgs/image_20250321-120000.jpg'' (m_prompt sample_main_locals) fresh_manager
        (m_user_email sample_main_locals) (m_api_base_url sample_main_locals) 3))
     = Inl AttributeError"
  using sample_analysis_number
  by (simp add: sample_main_locals_def main_pass_def check_water_def)

text \<open>
  C1 as stated, for the loop of \<open>main.py\<close>: a failed capture would be counted and tolerated
  until the maximum (10 in this repository). That loop keeps no counter: its first failed
  capture ends the process with status 1.
\<close>

theorem C1_counterexample:
  "fst (main_loop sample_loads sample_iglob sample_main_locals [main_pass 3 reply_number]
          fresh_manager)
     = Exited 1
   \<and> int (length [main_pass 3 reply_number]) < MAX_CONSECUTIVE_FAILURES"
  by (simp add: main_loop_iteration_def main_capture_def sample_main_locals_def main_pass_def
        sample_local_capture MAX_CONSECUTIVE_FAILURES_def)

text \<open>
  C1, amended: in the loop of \<open>capture_dataset.py\<close>, whose maximum is fixed at 10, a pass
  whose capture returns \<open>None\<close> adds exactly 1 to \<open>consecutive_failures\<close>; it exits with
  status 1 when the counter thereby reaches 10 and otherwise pauses 10 seconds and starts the
  next pass, with no upload and no interval sleep. A successful capture sets the counter to
  0: the pass goes on to the interval sleep and, unless that raises, the next pass starts
  from 0.
  The loop exits with a status only in that case, so from 0 it is still running after \<open>n < 10\<close>
  failed passes in a row and has exited with status 1 after 10. The loop of \<open>main.py\<close> exits
  with status 1 at its first failed capture, before analysis and sweep.
\<close>

theorem C1_consecutive_failures:
  "(capture_fails L env \<longrightarrow>
      dataset_iteration L env c =
        (if c + 1 \<ge> MAX_CONSECUTIVE_FAILURES
         then (Exit 1, MakeDirs (daily_dir L env) # snd (dataset_capture L env))
         else (Continue (c + 1),
               MakeDirs (daily_dir L env) # snd (dataset_capture L env) @ [Sleep 10])))
   \<and> (duration_check L env = Inr False \<and> e_makedirs_error env = None
        \<and> fst (dataset_capture L env) = Inr (Some p) \<longrightarrow>
      fst (dataset_iteration L env c) =
        (case interval_sleep L env of Inl e \<Rightarrow> Uncaught e | Inr pause \<Rightarrow> Continue 0)
      \<and> (config_ok L env \<longrightarrow> fst (dataset_iteration L env c) = Continue 0))
   \<and> (fst (dataset_iteration L env c) = Exit code \<longrightarrow>
      code = 1 \<and> capture_fails L env \<and> c + 1 \<ge> MAX_CONSECUTIVE_FAILURES)
   \<and> ((\<forall>e \<in> set envs. capture_fails L e) \<longrightarrow>
      fst (dataset_main L envs) =
        (if int (length envs) < MAX_CONSECUTIVE_FAILURES
         then Running (int (length envs)) else Exited 1))
   \<and> MAX_CONSECUTIVE_FAILURES = 10
   \<and> (fst (main_capture Lm menv) = Inr None \<longrightarrow>
      main_loop_iteration loads iglob Lm menv tm = (Exit 1, snd (main_capture Lm menv)))"
proof -
  have run: "fst (dataset_main L envs) =
        (if int (length envs) < MAX_CONSECUTIVE_FAILURES
         then Running (int (length envs)) else Exited 1)"
    if "\<forall>e \<in> set envs. capture_fails L e"
  proof -
    have "\<And>e. e \<in> set envs \<Longrightarrow> capture_fails L e" using that by blast
    from dataset_loop_failures [where c = 0 and L = L and envs = envs, OF this] show ?thesis
      by (simp add: dataset_main_def MAX_CONSECUTIVE_FAILURES_def)
  qed
  have m: "MAX_CONSECUTIVE_FAILURES = 10"
    by (simp add: MAX_CONSECUTIVE_FAILURES_def)
  have ok: "fst (dataset_iteration L env c) =
        (case interval_sleep L env of Inl e \<Rightarrow> Uncaught e | Inr pause \<Rightarrow> Continue 0)"
    if "duration_check L env = Inr False \<and> e_makedirs_error env = None
        \<and> fst (dataset_capture L env) = Inr (Some p)"
    using that by (intro dataset_iteration_succeeds [where p = p]) simp_all
  have ok0: "fst (dataset_iteration L env c) = Continue 0"
    if "duration_check L env = Inr False \<and> e_makedirs_error env = None
        \<and> fst (dataset_capture L env) = Inr (Some p)" and "config_ok L env"
    using ok [OF that(1)] config_ok_sleeps [OF that(2)] by auto
  have ex: "code = 1 \<and> capture_fails L env \<and> c + 1 \<ge> MAX_CONSECUTIVE_FAILURES"
    if "fst (dataset_iteration L env c) = Exit code"
    using that by (rule dataset_iteration_exit)
  show ?thesis
  proof (intro conjI impI)
    assume "capture_fails L env"
    then show "dataset_iteration L env c =
        (if c + 1 \<ge> MAX_CONSECUTIVE_FAILURES
         then (Exit 1, MakeDirs (daily_dir L env) # snd (dataset_capture L env))
         else (Continue (c + 1),
               MakeDirs (daily_dir L env) # snd (dataset_capture L env) @ [Sleep 10]))"
      by (rule dataset_iteration_fails)
  next
    assume h: "duration_check L env = Inr False \<and> e_makedirs_error env = None
        \<and> fst (dataset_capture L env) = Inr (Some p)"
    then show "fst (dataset_iteration L env c) =
        (case interval_sleep L env of Inl e \<Rightarrow> Uncaught e | Inr pause \<Rightarrow> Continue 0)"
      by (rule ok)
    assume "config_ok L env"
    with h show "fst (dataset_iteration L env c) = Continue 0"
      by (rule ok0)
  next
    assume h: "fst (dataset_iteration L env c) = Exit code"
    from ex [OF h] show "code = 1" and "capture_fails L env"
      and "c + 1 \<ge> MAX_CONSECUTIVE_FAILURES"
      by simp_all
  next
    assume "\<forall>e \<in> set envs. capture_fails L e"
    then show "fst (dataset_main L envs) =
        (if int (length envs) < MAX_CONSECUTIVE_FAILURES
         then Running (int (length envs)) else Exited 1)"
      by (rule run)
  next
    show "MAX_CONSECUTIVE_FAILURES = 10" by (rule m)
  next
    assume "fst (main_capture Lm menv) = Inr None"
    then show "main_loop_iteration loads iglob Lm menv tm = (Exit 1, snd (main_capture Lm menv))"
      by (rule main_iteration_capture_none)
  qed
qed

theorem C1_witness:
  "capture_fails sample_dataset_locals (dataset_pass 3)
   \<and> fst (dataset_iteration sample_dataset_locals (dataset_pass 3) 8) = Continue 9
   \<and> last (snd (dataset_iteration sample_dataset_locals (dataset_pass 3) 8)) = Sleep 10
   \<and> fst (dataset_iteration sample_dataset_locals (dataset_pass 3) 9) = Exit 1
   \<and> config_ok sample_dataset_locals (dataset_pass 0)
   \<and> fst (dataset_iteration sample_dataset_locals (dataset_pass 0) 9) = Continue 0
   \<and> fst (dataset_main sample_dataset_locals (replicate 9 (dataset_pass 3))) = Running 9
   \<and> fst (dataset_main sample_dataset_locals (replicate 10 (dataset_pass 3))) = Exited 1
   \<and> fst (main_loop_iteration sample_loads sample_iglob sample_main_locals
         (main_pass 3 reply_number) fresh_manager) = Exit 1"
proof -
  note f = sample_pass_fails
  note T = C1_consecutive_failures [where L = sample_dataset_locals and Lm = sample_main_locals
      and menv = "main_pass 3 reply_number" and loads = sample_loads and iglob = sample_iglob
      and tm = fresh_manager]
  have i8: "dataset_iteration sample_dataset_locals (dataset_pass 3) 8 =
      (Continue 9, MakeDirs (daily_dir sample_dataset_locals (dataset_pass 3))
         # snd (dataset_capture sample_dataset_locals (dataset_pass 3)) @ [Sleep 10])"
    using mp [OF conjunct1 [OF T [where env = "dataset_pass 3" and c = 8]] f]
    by (simp add: MAX_CONSECUTIVE_FAILURES_def)
  have i9: "fst (dataset_iteration sample_dataset_locals (dataset_pass 3) 9) = Exit 1"
    using mp [OF conjunct1 [OF T [where env = "dataset_pass 3" and c = 9]] f]
    by (simp add: MAX_CONSECUTIVE_FAILURES_def)
  have cf: "config_ok sample_dataset_locals (dataset_pass 0)"
    by (rule sample_pass_succeeds(4))
  have s: "duration_check sample_dataset_locals (dataset_pass 0) = Inr False
      \<and> e_makedirs_error (dataset_pass 0) = None
      \<and> fst (dataset_capture sample_dataset_locals (dataset_pass 0))
          = Inr (Some ''dataset_images/20250321/dataset_image_20250321-120000.jpg'')"
    by (intro conjI sample_pass_succeeds(1-3))
  have ok: "fst (dataset_iteration sample_dataset_locals (dataset_pass 0) 9) = Continue 0"
    using mp [OF conjunct2 [OF mp [OF conjunct1 [OF conjunct2
        [OF T [where env = "dataset_pass 0" and c = 9
           and p = "''dataset_images/20250321/dataset_image_20250321-120000.jpg''"]]] s]] cf] .
  have r9: "fst (dataset_main sample_dataset_locals (replicate 9 (dataset_pass 3))) = Running 9"
    using conjunct1 [OF conjunct2 [OF conjunct2 [OF conjunct2
        [OF T [where envs = "replicate 9 (dataset_pass 3)"]]]]] f
    by (simp add: MAX_CONSECUTIVE_FAILURES_def)
  have r10: "fst (dataset_main sample_dataset_locals (replicate 10 (dataset_pass 3))) = Exited 1"
    using conjunct1 [OF conjunct2 [OF conjunct2 [OF conjunct2
        [OF T [where envs = "replicate 10 (dataset_pass 3)"]]]]] f
    by (simp add: MAX_CONSECUTIVE_FAILURES_def)
  have mn: "fst (main_loop_iteration sample_loads sample_iglob sample_main_locals
         (main_pass 3 reply_number) fresh_manager) = Exit 1"
    using conjunct2 [OF conjunct2 [OF conjunct2 [OF conjunct2 [OF conjunct2 [OF T]]]]]
      sample_main_capture_fails [of reply_number]
    by simp
  show ?thesis using f i8 i9 cf ok r9 r10 mn by simp
qed

text \<open>
  C2 as stated: an exception in the body of a pass would be caught and the loop would go on,
  so that the process never crashes. In the loop of \<open>main.py\<close>, when the analysis service
  answers the JSON number 5, \<open>result.get\<close> raises \<open>AttributeError\<close>, nothing catches it, and
  the second pass never runs. In the loop of \<open>capture_dataset.py\<close>, with
  \<open>dataset_capture_interval\<close> left empty in the configuration, the first pass captures its
  image, leaves the \<open>try\<close> block, and \<open>capture_interval - elapsed\<close> raises \<open>TypeError\<close>
  outside it: the second pass never runs either.
\<close>

theorem C2_counterexample:
  "fst (main_loop sample_loads sample_iglob sample_main_locals
          [main_pass 0 reply_number, main_pass 0 reply_500_then_ok] fresh_manager)
     = Crashed AttributeError
   \<and> fst (dataset_main null_interval_locals [dataset_pass 0, dataset_pass 0])
     = Crashed TypeError"
proof -
  have "fst (main_loop_iteration sample_loads sample_iglob sample_main_locals
          (main_pass 0 reply_number) fresh_manager) = Uncaught AttributeError"
    by (rule main_iteration_check_raises [OF _ sample_check_number])
       (simp add: sample_main_capture_ok)
  then have a: "fst (main_loop sample_loads sample_iglob sample_main_locals
          [main_pass 0 reply_number, main_pass 0 reply_500_then_ok] fresh_manager)
     = Crashed AttributeError"
    by (cases "main_loop_iteration sample_loads sample_iglob sample_main_locals
          (main_pass 0 reply_number) fresh_manager") simp
  have "fst (dataset_iteration null_interval_locals (dataset_pass 0) 0) = Uncaught TypeError"
    using dataset_iteration_succeeds [OF null_interval_pass(1-3), of 0]
    by (simp add: null_interval_pass(4))
  then have b: "fst (dataset_main null_interval_locals [dataset_pass 0, dataset_pass 0])
     = Crashed TypeError"
    by (simp add: dataset_main_def dataset_loop_Cons_fst del: dataset_loop.simps)
  show ?thesis using a b by simp
qed
text \<open>
  C2, amended: in the loop of \<open>capture_dataset.py\<close>, a pass whose \<open>try\<close> block raises (while
  the daily directory is made, or inside the capture call) is caught: the counter keeps its
  value, the pass ends with a pause of 10 seconds and the loop goes on. An exception leaves
  a pass of that loop only from the two statements outside the \<open>try\<close>: the comparison with
  \<open>max_duration_seconds\<close> before it, and the interval arithmetic and sleep after a
  successful capture. When the configured duration limit is absent or a number and the
  interval is a number whose remaining part \<open>time.sleep\<close> accepts, no pass lets an exception
  out and no run of the loop crashes. The loop of \<open>main.py\<close> has no handler: an exception
  raised by its capture call, or by the inspection of the analysis result, ends the process.
\<close>

theorem C2_dataset_catch_all:
  "(duration_check L env = Inr False
      \<and> (e_makedirs_error env = Some x \<or> fst (dataset_capture L env) = Inl x) \<longrightarrow>
        fst (dataset_iteration L env c) = Continue c
        \<and> last (snd (dataset_iteration L env c)) = Sleep 10)
   \<and> (fst (dataset_iteration L env c) = Uncaught x \<longrightarrow>
        duration_check L env = Inl x
        \<or> (duration_check L env = Inr False \<and> e_makedirs_error env = None
           \<and> (\<exists>p. fst (dataset_capture L env) = Inr (Some p))
           \<and> interval_sleep L env = Inl x))
   \<and> (config_ok L env \<longrightarrow> fst (dataset_iteration L env c) \<noteq> Uncaught x)
   \<and> ((\<forall>e \<in> set envs. config_ok L e) \<longrightarrow> fst (dataset_main L envs) \<noteq> Crashed x)
   \<and> (fst (main_capture Lm envm) = Inl x \<longrightarrow>
        main_loop_iteration loads iglob Lm envm tm = (Uncaught x, snd (main_capture Lm envm)))
   \<and> (fst (main_capture Lm envm) = Inr (Some p)
      \<and> check_water loads
           (fst (analyze_image_veolia loads (m_analysis envm) p (m_prompt Lm) tm
                   (m_user_email Lm) (m_api_base_url Lm) 3)) = Inl x \<longrightarrow>
        fst (main_loop_iteration loads iglob Lm envm tm) = Uncaught x)"
proof (intro conjI impI)
  assume h: "duration_check L env = Inr False
      \<and> (e_makedirs_error env = Some x \<or> fst (dataset_capture L env) = Inl x)"
  then have "fst (dataset_iteration L env c) = Continue c
        \<and> last (snd (dataset_iteration L env c)) = Sleep 10"
    using dataset_iteration_caught [of L env x c] by blast
  then show "fst (dataset_iteration L env c) = Continue c"
    and "last (snd (dataset_iteration L env c)) = Sleep 10"
    by simp_all
next
  assume "fst (dataset_iteration L env c) = Uncaught x"
  then show "duration_check L env = Inl x
        \<or> (duration_check L env = Inr False \<and> e_makedirs_error env = None
           \<and> (\<exists>p. fst (dataset_capture L env) = Inr (Some p))
           \<and> interval_sleep L env = Inl x)"
    by (rule dataset_iteration_uncaught)
next
  assume "config_ok L env"
  then show "fst (dataset_iteration L env c) \<noteq> Uncaught x"
    by (rule dataset_iteration_never_uncaught)
next
  assume "\<forall>e \<in> set envs. config_ok L e"
  then have "\<And>e. e \<in> set envs \<Longrightarrow> config_ok L e" by blast
  then show "fst (dataset_main L envs) \<noteq> Crashed x"
    unfolding dataset_main_def by (rule dataset_loop_never_crashes)
next
  assume "fst (main_capture Lm envm) = Inl x"
  then show "main_loop_iteration loads iglob Lm envm tm = (Uncaught x, snd (main_capture Lm envm))"
    by (rule main_iteration_capture_raises)
next
  assume "fst (main_capture Lm envm) = Inr (Some p)
      \<and> check_water loads
           (fst (analyze_image_veolia loads (m_analysis envm) p (m_prompt Lm) tm
                   (m_user_email Lm) (m_api_base_url Lm) 3)) = Inl x"
  then show "fst (main_loop_iteration loads iglob Lm envm tm) = Uncaught x"
    by (intro main_iteration_check_raises [where p = p]) simp_all
qed

theorem C2_witness:
  "duration_check sample_dataset_locals dataset_pass_no_dir = Inr False
   \<and> e_makedirs_error dataset_pass_no_dir = Some OSError
   \<and> fst (dataset_iteration sample_dataset_locals dataset_pass_no_dir 4) = Continue 4
   \<and> last (snd (dataset_iteration sample_dataset_locals dataset_pass_no_dir 4)) = Sleep 10
   \<and> duration_check sample_dataset_locals dataset_pass_capture_raises = Inr False
   \<and> fst (dataset_capture sample_dataset_locals dataset_pass_capture_raises) = Inl OSError
   \<and> fst (dataset_iteration sample_dataset_locals dataset_pass_capture_raises 4) = Continue 4
   \<and> last (snd (dataset_iteration sample_dataset_locals dataset_pass_capture_raises 4)) = Sleep 10
   \<and> fst (dataset_iteration null_interval_locals (dataset_pass 0) 0) = Uncaught TypeError
   \<and> interval_sleep null_interval_locals (dataset_pass 0) = Inl TypeError
   \<and> config_ok sample_dataset_locals (dataset_pass 0)
   \<and> fst (dataset_iteration sample_dataset_locals (dataset_pass 0) 4) \<noteq> Uncaught TypeError
   \<and> config_ok sample_dataset_locals (dataset_pass 3)
   \<and> fst (dataset_main sample_dataset_locals [dataset_pass 3, dataset_pass 0])
       \<noteq> Crashed TypeError
   \<and> fst (main_capture sample_main_locals (main_pass 0 reply_number))
       = Inr (Some ''imgs/image_20250321-120000.jpg'')
   \<and> fst (main_loop_iteration sample_loads sample_iglob sample_main_locals
         (main_pass 0 reply_number) fresh_manager) = Uncaught AttributeError"
proof -
  have d1: "duration_check sample_dataset_locals dataset_pass_no_dir = Inr False"
    "e_makedirs_error dataset_pass_no_dir = Some OSError"
    by (simp_all add: duration_check_def sample_dataset_locals_def dataset_pass_no_dir_def)
  have d2: "duration_check sample_dataset_locals dataset_pass_capture_raises = Inr False"
    "fst (dataset_capture sample_dataset_locals dataset_pass_capture_raises) = Inl OSError"
    by (simp_all add: duration_check_def sample_dataset_locals_def
          dataset_pass_capture_raises_def dataset_capture_def capture_image_local_def
          sample_capture_env_def)
  note T = C2_dataset_catch_all [where L = sample_dataset_locals and c = 4 and x = OSError]
  have a: "fst (dataset_iteration sample_dataset_locals dataset_pass_no_dir 4) = Continue 4
     \<and> last (snd (dataset_iteration sample_dataset_locals dataset_pass_no_dir 4)) = Sleep 10"
    using conjunct1 [OF T [where env = dataset_pass_no_dir]] d1 by simp
  have b: "fst (dataset_iteration sample_dataset_locals dataset_pass_capture_raises 4) = Continue 4
     \<and> last (snd (dataset_iteration sample_dataset_locals dataset_pass_capture_raises 4)) = Sleep 10"
    using conjunct1 [OF T [where env = dataset_pass_capture_raises]] d2 by simp
  have u: "fst (dataset_iteration null_interval_locals (dataset_pass 0) 0) = Uncaught TypeError"
    using dataset_iteration_succeeds [OF null_interval_pass(1-3), of 0]
    by (simp add: null_interval_pass(4))
  have us: "interval_sleep null_interval_locals (dataset_pass 0) = Inl TypeError"
    using mp [OF conjunct1 [OF conjunct2 [OF C2_dataset_catch_all
        [where L = null_interval_locals and env = "dataset_pass 0" and c = 0
           and x = TypeError]]] u]
    by (simp add: null_interval_pass(1))
  have cf: "config_ok sample_dataset_locals (dataset_pass n)" for n
    by (rule sample_pass_succeeds(4))
  note U = C2_dataset_catch_all [where L = sample_dataset_locals and c = 4 and x = TypeError]
  have nu: "fst (dataset_iteration sample_dataset_locals (dataset_pass 0) 4) \<noteq> Uncaught TypeError"
    using mp [OF conjunct1 [OF conjunct2 [OF conjunct2 [OF U [where env = "dataset_pass 0"]]]] cf] .
  have all: "\<forall>e \<in> set [dataset_pass 3, dataset_pass 0]. config_ok sample_dataset_locals e"
    by (simp add: cf)
  have nc: "fst (dataset_main sample_dataset_locals [dataset_pass 3, dataset_pass 0])
       \<noteq> Crashed TypeError"
    using mp [OF conjunct1 [OF conjunct2 [OF conjunct2 [OF conjunct2
        [OF U [where envs = "[dataset_pass 3, dataset_pass 0]"]]]]] all] .
  have m: "fst (main_loop_iteration sample_loads sample_iglob sample_main_locals
         (main_pass 0 reply_number) fresh_manager) = Uncaught AttributeError"
    using conjunct2 [OF conjunct2 [OF conjunct2 [OF conjunct2 [OF conjunct2
        [OF C2_dataset_catch_all [where Lm = sample_main_locals
            and envm = "main_pass 0 reply_number" and loads = sample_loads
            and iglob = sample_iglob and tm = fresh_manager and x = AttributeError
            and p = "''imgs/image_20250321-120000.jpg''"]]]]]]
      sample_check_number sample_main_capture_ok [of reply_number]
    by simp
  have mc: "fst (main_capture sample_main_locals (main_pass 0 reply_number))
       = Inr (Some ''imgs/image_20250321-120000.jpg'')"
    by (simp add: sample_main_capture_ok)
  show ?thesis
    by (intro conjI d1 d2 conjunct1 [OF a] conjunct2 [OF a] conjunct1 [OF b] conjunct2 [OF b]
          u us cf nu nc mc m)
qed

end
